(* ===== verification/Prelude.thy ===== *)
theory Prelude
  imports Complex_Main
begin

text \<open>
  Shared material of the loan-calculator development: the named fact collections the
  component theories add to, and the generic lemmas on clamping (\<open>min\<close>/\<open>max\<close>), on
  non-increasing lists, on the rounding functions of the two platforms, and the
  division of doubles with its non-finite outcome.

  Numbers of the source (JavaScript \<open>number\<close>, Swift \<open>Double\<close>) are modelled by a type
  variable of class \<open>floor_ceiling\<close>, an Archimedean ordered field with \<open>floor\<close>:
  \<open>rat\<close> and \<open>real\<close> are instances, and witnesses evaluate at \<open>rat\<close>. Counts
  (\<open>numberOfPayments\<close>, \<open>paymentNumber\<close>) are \<open>int\<close>.
\<close>

named_theorems clamp_simps \<open>facts about the clamping idiom min (max x 0) b\<close>

section \<open>Clamping\<close>

text \<open>
  The engine clamps the principal portion of a payment with
  \<open>Math.min(Math.max(x, 0), b)\<close> and the balance with \<open>Math.max(b - p, 0)\<close>.
\<close>

lemma clamp_nonneg [clamp_simps]:
  fixes b :: "'a::linordered_idom"
  shows "0 \<le> b \<Longrightarrow> 0 \<le> min (max x 0) b"
  by simp

lemma clamp_le [clamp_simps]:
  fixes b :: "'a::linordered_idom"
  shows "min (max x 0) b \<le> b"
  by simp

lemma max_sub_clamp [clamp_simps]:
  fixes b :: "'a::linordered_idom"
  shows "0 \<le> b \<Longrightarrow> max (b - min (max x 0) b) 0 = b - min (max x 0) b"
  by simp

lemma max_sub_self [clamp_simps]:
  fixes b :: "'a::linordered_idom"
  shows "max (b - b) 0 = 0"
  by simp

section \<open>Non-increasing lists\<close>

abbreviation non_increasing :: "'a::linorder list \<Rightarrow> bool" where
  "non_increasing xs \<equiv> sorted_wrt (\<ge>) xs"

lemma non_increasing_last_le:
  "non_increasing xs \<Longrightarrow> x \<in> set xs \<Longrightarrow> last xs \<le> x"
proof (induction xs)
  case Nil
  then show ?case by simp
next
  case (Cons y ys)
  show ?case
  proof (cases "ys = []")
    case True
    with Cons.prems show ?thesis by simp
  next
    case False
    with Cons.prems have "last ys \<le> y" by simp
    with Cons False show ?thesis by auto
  qed
qed

lemma non_increasing_snoc:
  assumes "non_increasing xs" "xs \<noteq> []" "x \<le> last xs"
  shows "non_increasing (xs @ [x])"
proof -
  have "\<forall>y\<in>set xs. x \<le> y"
    using assms non_increasing_last_le order_trans by blast
  with assms(1) show ?thesis by (simp add: sorted_wrt_append)
qed

section \<open>Integer ranges\<close>

text \<open>The schedule is numbered by the range \<open>[1..n]\<close>; the views take its prefix and last.\<close>

lemma take_upto: "take k [i..j] = [i..min j (i + int k - 1)]"
proof (rule nth_equalityI)
  show "length (take k [i..j]) = length [i..min j (i + int k - 1)]" by simp
next
  fix m assume m: "m < length (take k [i..j])"
  then have "i + int m \<le> j" "i + int m \<le> i + int k - 1" by auto
  then show "take k [i..j] ! m = [i..min j (i + int k - 1)] ! m"
    using m by simp
qed

lemma last_upto: "i \<le> j \<Longrightarrow> last [i..j] = j"
  by (simp add: upto_rec2 [of i j])

section \<open>Rounding\<close>

text \<open>
  JavaScript's \<open>Math.round\<close> returns the integer closest to its argument and, of two
  equally close ones, the one closer to \<open>+\<infinity>\<close>: that is \<open>\<lfloor>x + 1/2\<rfloor>\<close>, the library's
  \<open>round\<close>. Swift's \<open>rounded()\<close> uses the rule \<open>toNearestOrAwayFromZero\<close>: halves go
  away from zero.
\<close>

definition swift_rounded :: "'a::floor_ceiling \<Rightarrow> int" where
  "swift_rounded x = (if 0 \<le> x then \<lfloor>x + 1/2\<rfloor> else - \<lfloor>- x + 1/2\<rfloor>)"

lemma round_pos_iff:
  fixes x :: "'a::floor_ceiling"
  shows "0 < round x \<longleftrightarrow> 1/2 \<le> x"
proof -
  have "0 < round x \<longleftrightarrow> 1 \<le> \<lfloor>x + 1/2\<rfloor>" by (simp add: round_def)
  also have "\<dots> \<longleftrightarrow> 1 \<le> x + 1/2" by simp
  also have "\<dots> \<longleftrightarrow> 1/2 \<le> x" by linarith
  finally show ?thesis .
qed

lemma swift_rounded_pos_iff:
  fixes x :: "'a::floor_ceiling"
  shows "0 < swift_rounded x \<longleftrightarrow> 1/2 \<le> x"
proof (cases "0 \<le> x")
  case True
  then show ?thesis
    using round_pos_iff [of x] by (simp add: swift_rounded_def round_def)
next
  case False
  have "0 \<le> \<lfloor>- x + 1/2\<rfloor>"
    using False by simp
  with False show ?thesis by (simp add: swift_rounded_def)
qed

lemma swift_rounded_nonneg:
  fixes x :: "'a::floor_ceiling"
  shows "0 \<le> x \<Longrightarrow> swift_rounded x = round x"
  by (simp add: swift_rounded_def round_def)

section \<open>Division of doubles\<close>

text \<open>
  Division of JavaScript \<open>number\<close>s and Swift \<open>Double\<close>s: for a non-zero divisor the
  quotient (the rounding to a double aside); for a zero divisor IEEE-754 gives
  \<open>Infinity\<close>, \<open>-Infinity\<close> or \<open>NaN\<close>, which the exact numbers cannot hold, so the
  outcome is \<open>None\<close>. HOL's own \<open>x / 0 = 0\<close> is never what the program computes.
\<close>

definition ieee_div :: "'a::field \<Rightarrow> 'a \<Rightarrow> 'a option" where
  "ieee_div x y = (if y = 0 then None else Some (x / y))"

lemma ieee_div_zero [simp]: "ieee_div x 0 = None"
  by (simp add: ieee_div_def)

lemma ieee_div_nonzero [simp]: "y \<noteq> 0 \<Longrightarrow> ieee_div x y = Some (x / y)"
  by (simp add: ieee_div_def)

text \<open>The powers equal to one, which make the annuity denominator \<open>factor - 1\<close> vanish.\<close>

lemma power_eq_one_iff:
  fixes x :: "'a::linordered_idom"
  assumes "0 < m"
  shows "x ^ m = 1 \<longleftrightarrow> x = 1 \<or> (x = -1 \<and> even m)"
proof
  assume h: "x ^ m = 1"
  then have "\<bar>x\<bar> ^ m = 1 ^ m" by (simp add: power_abs [symmetric])
  then have "\<bar>x\<bar> = 1" using assms power_eq_iff_eq_base [of m "\<bar>x\<bar>" 1] by simp
  then have "x = 1 \<or> x = -1" by (cases "0 \<le> x") simp_all
  moreover have "x = -1 \<Longrightarrow> even m" using h by (cases "even m") auto
  ultimately show "x = 1 \<or> (x = -1 \<and> even m)" by blast
qed auto

end
