(* ===== verification/LoanParameters.thy ===== *)
theory LoanParameters
  imports Prelude
begin

text \<open>
  The input data of a calculation, as both platforms declare it:
  \<open>src/src/models/LoanParameters.ts\<close> (enum \<open>PaymentFrequency\<close>, interface
  \<open>LoanParameters\<close>, \<open>createDefaultLoanParameters\<close>, \<open>getPaymentFrequencyLabel\<close>,
  \<open>getAllPaymentFrequencies\<close>) and \<open>src/LoanCalculator/Models/LoanParameters.swift\<close>
  (the same struct with default initialiser arguments, enum cases with raw values,
  \<open>label\<close> and \<open>allCases\<close>).
\<close>

section \<open>Payment frequency\<close>

text \<open>
  The TypeScript enum has numeric members; the Swift enum has the same cases with
  the same \<open>Int\<close> raw values. One datatype models both, and its value function is
  the enum's number.
\<close>

datatype payment_frequency = MONTHLY | BI_WEEKLY | WEEKLY

primrec payment_frequency_value :: "payment_frequency \<Rightarrow> int" where
  "payment_frequency_value MONTHLY = 12"
| "payment_frequency_value BI_WEEKLY = 26"
| "payment_frequency_value WEEKLY = 52"

text \<open>\<open>getPaymentFrequencyLabel\<close>: a switch with a default branch.\<close>

fun get_payment_frequency_label :: "payment_frequency \<Rightarrow> string" where
  "get_payment_frequency_label MONTHLY = ''Monthly''"
| "get_payment_frequency_label BI_WEEKLY = ''Bi-Weekly''"
| "get_payment_frequency_label WEEKLY = ''Weekly''"

definition get_all_payment_frequencies :: "payment_frequency list" where
  "get_all_payment_frequencies = [MONTHLY, BI_WEEKLY, WEEKLY]"

text \<open>The Swift enum: \<open>label\<close> and \<open>CaseIterable.allCases\<close> (declaration order).\<close>

primrec swift_frequency_label :: "payment_frequency \<Rightarrow> string" where
  "swift_frequency_label MONTHLY = ''Monthly''"
| "swift_frequency_label BI_WEEKLY = ''Bi-Weekly''"
| "swift_frequency_label WEEKLY = ''Weekly''"

definition swift_all_cases :: "payment_frequency list" where
  "swift_all_cases = [MONTHLY, BI_WEEKLY, WEEKLY]"

text \<open>
  The frequencies form a finite type whose enumeration is the declaration order, the
  order of Swift's \<open>allCases\<close>; they are ordered by their number of payments per year,
  the order in which TypeScript compares the numeric enum members.
\<close>

instantiation payment_frequency :: enum
begin

definition "enum_payment_frequency = [MONTHLY, BI_WEEKLY, WEEKLY]"

definition "enum_all_payment_frequency P \<longleftrightarrow> P MONTHLY \<and> P BI_WEEKLY \<and> P WEEKLY"

definition "enum_ex_payment_frequency P \<longleftrightarrow> P MONTHLY \<or> P BI_WEEKLY \<or> P WEEKLY"

instance
proof
  have u: "UNIV = {MONTHLY, BI_WEEKLY, WEEKLY}" using payment_frequency.exhaust by auto
  then show "UNIV = set (enum_class.enum :: payment_frequency list)"
    by (simp add: enum_payment_frequency_def)
  show "distinct (enum_class.enum :: payment_frequency list)"
    by (simp add: enum_payment_frequency_def)
  fix P :: "payment_frequency \<Rightarrow> bool"
  show "enum_class.enum_all P = Ball UNIV P" by (simp add: u enum_all_payment_frequency_def)
  show "enum_class.enum_ex P = Bex UNIV P" by (simp add: u enum_ex_payment_frequency_def)
qed

end

instantiation payment_frequency :: linorder
begin

definition less_eq_payment_frequency_def:
  "f \<le> g \<longleftrightarrow> payment_frequency_value f \<le> payment_frequency_value g"

definition less_payment_frequency_def:
  "f < g \<longleftrightarrow> payment_frequency_value f < payment_frequency_value g"

instance
proof
  fix x y z :: payment_frequency
  show "x < y \<longleftrightarrow> x \<le> y \<and> \<not> y \<le> x"
    by (auto simp: less_eq_payment_frequency_def less_payment_frequency_def)
  show "x \<le> x" by (simp add: less_eq_payment_frequency_def)
  show "x \<le> y \<Longrightarrow> y \<le> z \<Longrightarrow> x \<le> z"
    by (simp add: less_eq_payment_frequency_def)
  show "x \<le> y \<Longrightarrow> y \<le> x \<Longrightarrow> x = y"
    by (cases x; cases y) (simp_all add: less_eq_payment_frequency_def)
  show "x \<le> y \<or> y \<le> x" by (auto simp: less_eq_payment_frequency_def)
qed

end

section \<open>Loan parameters\<close>

record 'a loan_parameters =
  loanAmount :: 'a
  interestRate :: 'a
  termYears :: 'a
  paymentsPerYear :: payment_frequency

text \<open>
  \<open>createDefaultLoanParameters\<close> takes four optional arguments; the record it returns
  is built from them. \<open>default_loan_parameters\<close> is the call with every default
  (350000, 5.5, 30, monthly), the values Swift's \<open>LoanParameters.init\<close> also uses.
\<close>

definition create_default_loan_parameters ::
  "'a \<Rightarrow> 'a \<Rightarrow> 'a \<Rightarrow> payment_frequency \<Rightarrow> 'a loan_parameters" where
  "create_default_loan_parameters amount rate years freq =
     \<lparr>loanAmount = amount, interestRate = rate, termYears = years, paymentsPerYear = freq\<rparr>"

definition default_loan_parameters :: "'a::field loan_parameters" where
  "default_loan_parameters = create_default_loan_parameters 350000 (11 / 2) 30 MONTHLY"

lemma payment_frequency_value_pos [simp]: "0 < payment_frequency_value f"
  by (cases f) simp_all

lemma payment_frequency_value_nonzero [simp]: "payment_frequency_value f \<noteq> 0"
  by (cases f) simp_all

lemma UNIV_payment_frequency: "UNIV = {MONTHLY, BI_WEEKLY, WEEKLY}"
  using payment_frequency.exhaust by auto

lemma payment_frequency_value_inj: "inj payment_frequency_value"
proof (rule injI)
  fix f g assume "payment_frequency_value f = payment_frequency_value g"
  then show "f = g" by (cases f; cases g) simp_all
qed

end
