(* ===== verification/LoanCalculator.thy ===== *)
theory LoanCalculator
  imports LoanParameters
begin

text \<open>
  The amortization engine of the React Native app, \<open>LoanCalculator.calculate\<close> in
  \<open>src/src/models/LoanCalculator.ts\<close>: the result records, the level-payment formula,
  one iteration of the schedule loop, the loop itself and the whole function, also with
  the divisions of doubles (\<open>calculate_js\<close>), whose zero divisor is an explicit
  non-finite outcome. Then the
  loop invariant, the rule that carries an invariant through the loop, and the
  functional properties of \<open>calculate\<close> that follow from it.
\<close>

section \<open>Result data\<close>

text \<open>
  \<open>interface AmortizationPayment\<close> and \<open>interface LoanResult\<close>. The field \<open>id\<close> is
  \<open>paymentId\<close> here (\<open>id\<close> is the identity function of HOL).
\<close>

record 'a amortization_payment =
  paymentId :: int
  paymentNumber :: int
  paymentAmount :: 'a
  interestPaid :: 'a
  principalPaid :: 'a
  remainingBalance :: 'a

record 'a loan_result =
  periodicPayment :: 'a
  totalInterest :: 'a
  totalPaid :: 'a
  schedule :: "'a amortization_payment list"

text \<open>The early return for a non-positive payment count.\<close>

definition zero_result :: "'a::zero loan_result" where
  "zero_result = \<lparr>periodicPayment = 0, totalInterest = 0, totalPaid = 0, schedule = []\<rparr>"

section \<open>The level payment\<close>

text \<open>
  \<open>paymentAmount\<close> of the source: straight-line when the periodic rate is zero,
  the annuity formula otherwise, with \<open>Math.pow(1 + r, n)\<close> for an integral \<open>n \<ge> 1\<close>.
\<close>

definition level_payment :: "'a::field \<Rightarrow> 'a \<Rightarrow> int \<Rightarrow> 'a" where
  "level_payment amount r n =
     (if r = 0 then amount / of_int n
      else (let factor = (1 + r) ^ nat n in amount * (r * factor) / (factor - 1)))"

section \<open>The schedule loop\<close>

text \<open>
  The variables the \<open>for\<close> loop updates: \<open>remainingBalance\<close>, \<open>schedule\<close>,
  \<open>totalInterest\<close>, \<open>totalPaid\<close>.
\<close>

record 'a amortization_state =
  loop_balance :: 'a
  loop_schedule :: "'a amortization_payment list"
  loop_interest :: 'a
  loop_paid :: 'a

text \<open>
  \<open>principalPayment\<close>: the level payment less the interest, clamped to
  \<open>[0, remainingBalance]\<close>, and the whole balance on the final period.
\<close>

definition principal_portion :: "int \<Rightarrow> 'a::linordered_field \<Rightarrow> int \<Rightarrow> 'a \<Rightarrow> 'a \<Rightarrow> 'a" where
  "principal_portion n pay k bal interest =
     (let p = min (max (pay - interest) 0) bal in if k = n then bal else p)"

text \<open>One iteration of the loop body, for payment number \<open>k\<close>.\<close>

definition payment_step ::
  "int \<Rightarrow> 'a::linordered_field \<Rightarrow> 'a \<Rightarrow> int \<Rightarrow> 'a amortization_state \<Rightarrow> 'a amortization_state" where
  "payment_step n r pay k st =
     (let bal = loop_balance st;
          interestPayment = bal * r;
          principalPayment = principal_portion n pay k bal interestPayment;
          actualPayment = principalPayment + max interestPayment 0;
          bal' = max (bal - principalPayment) 0
      in \<lparr>loop_balance = bal',
          loop_schedule = loop_schedule st @
            [\<lparr>paymentId = k, paymentNumber = k, paymentAmount = actualPayment,
              interestPaid = max interestPayment 0, principalPaid = principalPayment,
              remainingBalance = bal'\<rparr>],
          loop_interest = loop_interest st + max interestPayment 0,
          loop_paid = loop_paid st + actualPayment\<rparr>)"

text \<open>
  \<open>for (let paymentNumber = k; paymentNumber <= n; paymentNumber++)\<close>: the guard is
  the condition of the equation, and \<open>n + 1 - k\<close> decreases.
\<close>

function payment_loop ::
  "int \<Rightarrow> 'a::linordered_field \<Rightarrow> 'a \<Rightarrow> int \<Rightarrow> 'a amortization_state \<Rightarrow> 'a amortization_state" where
  "payment_loop n r pay k st =
     (if k \<le> n then payment_loop n r pay (k + 1) (payment_step n r pay k st) else st)"
  by pat_completeness auto
termination
  by (relation "measure (\<lambda>(n, r, pay, k, st). nat (n + 1 - k))") auto

declare payment_loop.simps [simp del]

section \<open>calculate\<close>

definition initial_state :: "'a::zero \<Rightarrow> 'a amortization_state" where
  "initial_state amount =
     \<lparr>loop_balance = amount, loop_schedule = [], loop_interest = 0, loop_paid = 0\<rparr>"

definition number_of_payments :: "'a::floor_ceiling loan_parameters \<Rightarrow> int" where
  "number_of_payments p = round (termYears p * of_int (payment_frequency_value (paymentsPerYear p)))"

definition rate_per_period :: "'a::floor_ceiling loan_parameters \<Rightarrow> 'a" where
  "rate_per_period p =
     (interestRate p / 100) / of_int (payment_frequency_value (paymentsPerYear p))"

definition calculate :: "'a::floor_ceiling loan_parameters \<Rightarrow> 'a loan_result" where
  "calculate p =
     (let amount = max (loanAmount p) 0;
          n = number_of_payments p
      in if n \<le> 0 then zero_result
         else (let r = rate_per_period p;
                   pay = level_payment amount r n;
                   st = payment_loop n r pay 1 (initial_state amount)
               in \<lparr>periodicPayment = pay, totalInterest = loop_interest st,
                   totalPaid = loop_paid st, schedule = loop_schedule st\<rparr>))"

section \<open>The divisions of calculate\<close>

text \<open>
  \<open>calculate\<close> above divides with HOL's \<open>/\<close>, where \<open>x / 0 = 0\<close>. The source divides
  doubles: lines 38 and 41 with \<open>ieee_div\<close>, whose zero divisor yields a non-finite
  \<open>paymentAmount\<close> (\<open>Infinity\<close>, \<open>-Infinity\<close> or \<open>NaN\<close>), which the result then
  carries as its \<open>periodicPayment\<close>. \<open>calculate_js\<close> is the same function with these
  divisions: \<open>None\<close> is a result whose payment is not a finite number. The other
  divisions of line 34 are by \<open>100\<close> and by the frequency, never zero.
\<close>

definition level_payment_js :: "'a::field \<Rightarrow> 'a \<Rightarrow> int \<Rightarrow> 'a option" where
  "level_payment_js amount r n =
     (if r = 0 then ieee_div amount (of_int n)
      else (let factor = (1 + r) ^ nat n in ieee_div (amount * (r * factor)) (factor - 1)))"

definition calculate_js :: "'a::floor_ceiling loan_parameters \<Rightarrow> 'a loan_result option" where
  "calculate_js p =
     (let amount = max (loanAmount p) 0;
          n = number_of_payments p
      in if n \<le> 0 then Some zero_result
         else (let r = rate_per_period p
               in map_option
                    (\<lambda>pay. let st = payment_loop n r pay 1 (initial_state amount)
                          in \<lparr>periodicPayment = pay, totalInterest = loop_interest st,
                              totalPaid = loop_paid st, schedule = loop_schedule st\<rparr>)
                    (level_payment_js amount r n)))"


section \<open>One iteration\<close>

lemma principal_portion_bounds [clamp_simps]:
  "0 \<le> bal \<Longrightarrow> 0 \<le> principal_portion n pay k bal i \<and> principal_portion n pay k bal i \<le> bal"
  by (simp add: principal_portion_def Let_def)

lemma principal_portion_last [simp]: "principal_portion n pay n bal i = bal"
  by (simp add: principal_portion_def)

text \<open>
  With a non-negative balance the clamp \<open>Math.max(remainingBalance, 0)\<close> after the
  subtraction never fires: the new balance is the old one less the principal portion.
\<close>

lemma payment_step_eq:
  fixes n k :: int and pay r :: "'a::linordered_field"
  assumes "0 \<le> loop_balance st"
  defines "b \<equiv> loop_balance st"
  defines "pp \<equiv> principal_portion n pay k b (b * r)"
  shows "payment_step n r pay k st =
     \<lparr>loop_balance = b - pp,
      loop_schedule = loop_schedule st @
        [\<lparr>paymentId = k, paymentNumber = k, paymentAmount = pp + max (b * r) 0,
          interestPaid = max (b * r) 0, principalPaid = pp, remainingBalance = b - pp\<rparr>],
      loop_interest = loop_interest st + max (b * r) 0,
      loop_paid = loop_paid st + (pp + max (b * r) 0)\<rparr>"
proof -
  have "max (b - pp) 0 = b - pp"
    using principal_portion_bounds [of b n pay k "b * r"] assms(1) by (simp add: b_def pp_def)
  then show ?thesis by (simp add: payment_step_def Let_def b_def pp_def)
qed

section \<open>The loop rule\<close>

text \<open>
  A property \<open>Q k st\<close> of the loop variables before iteration \<open>k\<close> that every iteration
  \<open>1 \<le> k \<le> n\<close> carries to \<open>k + 1\<close> holds when the loop exits, at \<open>k = n + 1\<close>. Induction
  on the number of iterations left.
\<close>

lemma payment_loop_rule:
  assumes step: "\<And>j s. 1 \<le> j \<Longrightarrow> j \<le> n \<Longrightarrow> Q j s \<Longrightarrow> Q (j + 1) (payment_step n r pay j s)"
  shows "1 \<le> k \<Longrightarrow> k \<le> n + 1 \<Longrightarrow> Q k st \<Longrightarrow> Q (n + 1) (payment_loop n r pay k st)"
proof (induction "nat (n + 1 - k)" arbitrary: k st)
  case 0
  then have "k = n + 1" by simp
  with "0.prems" show ?case by (simp add: payment_loop.simps [of n r pay "n + 1"])
next
  case (Suc m)
  then have k: "k \<le> n" and m: "m = nat (n + 1 - (k + 1))" by simp_all
  have "Q (k + 1) (payment_step n r pay k st)"
    using step Suc.prems k by blast
  then have "Q (n + 1) (payment_loop n r pay (k + 1) (payment_step n r pay k st))"
    using Suc.hyps(1) [OF m] Suc.prems k by simp
  with k show ?case by (simp add: payment_loop.simps [of n r pay k])
qed

section \<open>The loop invariant\<close>

text \<open>
  A row of the schedule is well formed when its \<open>id\<close> is its number, its interest and
  principal are non-negative, its payment is their sum and its balance is non-negative.
\<close>

definition row_ok :: "'a::linordered_field amortization_payment \<Rightarrow> bool" where
  "row_ok row \<longleftrightarrow>
     paymentId row = paymentNumber row \<and> 0 \<le> interestPaid row \<and> 0 \<le> principalPaid row \<and>
     paymentAmount row = principalPaid row + interestPaid row \<and> 0 \<le> remainingBalance row"

text \<open>
  The balances of a schedule form a chain from the principal \<open>b\<close>: each row's balance
  is the previous balance less the row's principal.
\<close>

fun balance_chain :: "'a::linordered_field \<Rightarrow> 'a amortization_payment list \<Rightarrow> bool" where
  "balance_chain b [] = True"
| "balance_chain b (row # rows) \<longleftrightarrow>
     remainingBalance row = b - principalPaid row \<and> balance_chain (remainingBalance row) rows"

text \<open>
  Before iteration \<open>k\<close> of a loop over \<open>n\<close> payments that started from principal \<open>P\<close>:
  the balance is non-negative; the rows are numbered \<open>1 .. k - 1\<close> and well formed; the
  two running totals are the sums of their columns; the principal paid so far plus the
  balance is \<open>P\<close>; the balances, after \<open>P\<close>, never increase and the last of them is the
  current balance; and once the loop is past \<open>n\<close> the balance is zero.
\<close>

definition loop_inv :: "int \<Rightarrow> 'a::linordered_field \<Rightarrow> int \<Rightarrow> 'a amortization_state \<Rightarrow> bool" where
  "loop_inv n P k st \<longleftrightarrow>
     0 \<le> loop_balance st \<and>
     map paymentNumber (loop_schedule st) = [1..k - 1] \<and>
     list_all row_ok (loop_schedule st) \<and>
     loop_interest st = sum_list (map interestPaid (loop_schedule st)) \<and>
     loop_paid st = sum_list (map paymentAmount (loop_schedule st)) \<and>
     sum_list (map principalPaid (loop_schedule st)) + loop_balance st = P \<and>
     non_increasing (P # map remainingBalance (loop_schedule st)) \<and>
     balance_chain P (loop_schedule st) \<and>
     loop_balance st = last (P # map remainingBalance (loop_schedule st)) \<and>
     (n < k \<longrightarrow> loop_balance st = 0)"

lemma balance_chain_snoc [simp]:
  "balance_chain b (rows @ [row]) \<longleftrightarrow>
     balance_chain b rows \<and> remainingBalance row = last (b # map remainingBalance rows) - principalPaid row"
  by (induction rows arbitrary: b) auto

lemma loop_inv_initial: "0 \<le> P \<Longrightarrow> 1 \<le> n \<Longrightarrow> loop_inv n P 1 (initial_state P)"
  by (simp add: loop_inv_def initial_state_def)

lemma loop_inv_step:
  assumes k: "1 \<le> k" "k \<le> n" and inv: "loop_inv n P k st"
  shows "loop_inv n P (k + 1) (payment_step n r pay k st)"
proof -
  let ?b = "loop_balance st"
  let ?pp = "principal_portion n pay k ?b (?b * r)"
  let ?bals = "P # map remainingBalance (loop_schedule st)"
  from inv have b0: "0 \<le> ?b" by (simp add: loop_inv_def)
  have pp: "0 \<le> ?pp" "?pp \<le> ?b"
    using principal_portion_bounds [OF b0] by auto
  have upto: "[1..k] = [1..k - 1] @ [k]"
    using k(1) upto_rec2 [of 1 k] by simp
  have sorted: "non_increasing (?bals @ [?b - ?pp])"
    using inv pp(1) by (intro non_increasing_snoc) (simp_all add: loop_inv_def)
  have last_zero: "n < k + 1 \<Longrightarrow> ?b - ?pp = 0"
    using k(2) by simp
  show ?thesis
    using inv pp b0 upto sorted last_zero
    by (simp add: loop_inv_def payment_step_eq [OF b0] row_ok_def algebra_simps)
qed

lemma loop_inv_loop:
  "0 \<le> P \<Longrightarrow> 1 \<le> n \<Longrightarrow> loop_inv n P (n + 1) (payment_loop n r pay 1 (initial_state P))"
  by (rule payment_loop_rule [where Q = "loop_inv n P"]) (simp_all add: loop_inv_step loop_inv_initial)

section \<open>From the loop to calculate\<close>

lemma calculate_nonpos: "number_of_payments p \<le> 0 \<Longrightarrow> calculate p = zero_result"
  by (simp add: calculate_def)

text \<open>
  With a positive payment count, \<open>calculate\<close> returns the level payment and the loop
  variables of a final state that satisfies the loop invariant at \<open>k = n + 1\<close>.
\<close>

lemma calculate_loop:
  assumes "0 < number_of_payments p"
  obtains st where
    "loop_inv (number_of_payments p) (max (loanAmount p) 0) (number_of_payments p + 1) st"
    "calculate p =
       \<lparr>periodicPayment = level_payment (max (loanAmount p) 0) (rate_per_period p) (number_of_payments p),
        totalInterest = loop_interest st, totalPaid = loop_paid st, schedule = loop_schedule st\<rparr>"
proof -
  let ?n = "number_of_payments p" and ?P = "max (loanAmount p) 0"
  let ?st = "payment_loop ?n (rate_per_period p) (level_payment ?P (rate_per_period p) ?n) 1 (initial_state ?P)"
  have "loop_inv ?n ?P (?n + 1) ?st"
    using assms by (intro loop_inv_loop) simp_all
  moreover have "calculate p =
       \<lparr>periodicPayment = level_payment ?P (rate_per_period p) ?n,
        totalInterest = loop_interest ?st, totalPaid = loop_paid ?st, schedule = loop_schedule ?st\<rparr>"
    using assms by (simp add: calculate_def Let_def)
  ultimately show ?thesis using that by blast
qed

lemma calculate_inv:
  assumes "0 < number_of_payments p"
  shows "loop_inv (number_of_payments p) (max (loanAmount p) 0) (number_of_payments p + 1)
           \<lparr>loop_balance = 0, loop_schedule = schedule (calculate p),
            loop_interest = totalInterest (calculate p), loop_paid = totalPaid (calculate p)\<rparr>"
proof -
  obtain st where inv: "loop_inv (number_of_payments p) (max (loanAmount p) 0) (number_of_payments p + 1) st"
    and eq: "calculate p =
       \<lparr>periodicPayment = level_payment (max (loanAmount p) 0) (rate_per_period p) (number_of_payments p),
        totalInterest = loop_interest st, totalPaid = loop_paid st, schedule = loop_schedule st\<rparr>"
    using calculate_loop [OF assms] by blast
  from inv have "loop_balance st = 0" by (simp add: loop_inv_def)
  with inv eq show ?thesis by (simp add: loop_inv_def)
qed

lemma number_of_payments_pos_iff:
  "0 < number_of_payments p \<longleftrightarrow>
     1/2 \<le> termYears p * of_int (payment_frequency_value (paymentsPerYear p))"
  by (simp add: number_of_payments_def round_pos_iff)

lemma calculate_numbers:
  "map paymentNumber (schedule (calculate p)) = [1..number_of_payments p]"
proof (cases "0 < number_of_payments p")
  case True
  then show ?thesis using calculate_inv [OF True] by (simp add: loop_inv_def)
next
  case False
  then show ?thesis by (simp add: calculate_nonpos zero_result_def)
qed

lemma calculate_rows_ok: "list_all row_ok (schedule (calculate p))"
proof (cases "0 < number_of_payments p")
  case True
  then show ?thesis using calculate_inv [OF True] by (simp add: loop_inv_def)
next
  case False
  then show ?thesis by (simp add: calculate_nonpos zero_result_def)
qed

lemma calculate_schedule_nonempty:
  "schedule (calculate p) \<noteq> [] \<Longrightarrow> 0 < number_of_payments p"
  by (cases "0 < number_of_payments p") (simp_all add: calculate_nonpos zero_result_def)

lemma calculate_last_row:
  assumes "schedule (calculate p) \<noteq> []"
  shows "paymentNumber (last (schedule (calculate p))) = number_of_payments p \<and>
         remainingBalance (last (schedule (calculate p))) = 0"
proof -
  have pos: "0 < number_of_payments p"
    using assms by (rule calculate_schedule_nonempty)
  have "0 = last (max (loanAmount p) 0 # map remainingBalance (schedule (calculate p)))"
    using calculate_inv [OF pos] by (simp add: loop_inv_def)
  moreover have "last (map paymentNumber (schedule (calculate p))) = number_of_payments p"
    using pos by (simp add: calculate_numbers last_upto)
  ultimately show ?thesis using assms by (simp add: last_map)
qed

lemma sum_payments_split:
  "list_all row_ok rows \<Longrightarrow>
     sum_list (map paymentAmount rows) =
       sum_list (map principalPaid rows) + sum_list (map interestPaid rows)"
  by (induction rows) (simp_all add: row_ok_def algebra_simps)

lemma calculate_paid_eq:
  "totalPaid (calculate p) =
     sum_list (map principalPaid (schedule (calculate p))) + totalInterest (calculate p)"
proof (cases "0 < number_of_payments p")
  case True
  then show ?thesis
    using calculate_inv [OF True] sum_payments_split [OF calculate_rows_ok [of p]]
    by (simp add: loop_inv_def)
next
  case False
  then show ?thesis by (simp add: calculate_nonpos zero_result_def)
qed

lemma calculate_interest_eq:
  "totalInterest (calculate p) = sum_list (map interestPaid (schedule (calculate p)))"
proof (cases "0 < number_of_payments p")
  case True
  then show ?thesis using calculate_inv [OF True] by (simp add: loop_inv_def)
next
  case False
  then show ?thesis by (simp add: calculate_nonpos zero_result_def)
qed

text \<open>The interest total is non-negative and at most the total paid.\<close>

lemma calculate_interest_bounds:
  "0 \<le> totalInterest (calculate p) \<and> totalInterest (calculate p) \<le> totalPaid (calculate p)"
proof -
  have rows: "\<forall>row \<in> set (schedule (calculate p)). 0 \<le> interestPaid row \<and> 0 \<le> principalPaid row"
    using calculate_rows_ok [of p] by (simp add: list_all_iff row_ok_def)
  have "0 \<le> sum_list (map interestPaid (schedule (calculate p)))"
    using rows by (intro sum_list_nonneg) auto
  moreover have "0 \<le> sum_list (map principalPaid (schedule (calculate p)))"
    using rows by (intro sum_list_nonneg) auto
  moreover have "totalInterest (calculate p) = sum_list (map interestPaid (schedule (calculate p)))"
    by (rule calculate_interest_eq)
  ultimately show ?thesis using calculate_paid_eq [of p] by simp
qed

section \<open>The non-finite payment\<close>





section \<open>Properties of calculate\<close>


text \<open>
  C2: the final period absorbs the residue: the last row of a non-empty schedule leaves a
  balance of exactly zero.
\<close>

theorem calculate_final_balance_zero:
  assumes "schedule (calculate p) \<noteq> []"
  shows "remainingBalance (last (schedule (calculate p))) = 0"
  using calculate_last_row [OF assms] by simp

theorem calculate_final_balance_zero_witness:
  "schedule (calculate \<lparr>loanAmount = 1000 :: rat, interestRate = 12, termYears = 1/6,
                        paymentsPerYear = MONTHLY\<rparr>) \<noteq> [] \<and>
   remainingBalance (last (schedule (calculate \<lparr>loanAmount = 1000 :: rat, interestRate = 12,
                        termYears = 1/6, paymentsPerYear = MONTHLY\<rparr>))) = 0"
proof -
  have h: "schedule (calculate \<lparr>loanAmount = 1000 :: rat, interestRate = 12, termYears = 1/6,
                        paymentsPerYear = MONTHLY\<rparr>) \<noteq> []"
    by code_simp
  show ?thesis using h calculate_final_balance_zero [OF h] by simp
qed

text \<open>
  C3: the balance never increases, starting from the clamped principal, and is never
  negative.
\<close>

theorem calculate_balances_non_increasing:
  "non_increasing (max (loanAmount p) 0 # map remainingBalance (schedule (calculate p))) \<and>
   list_all (\<lambda>row. 0 \<le> remainingBalance row) (schedule (calculate p))"
proof (cases "0 < number_of_payments p")
  case True
  have "list_all (\<lambda>row. 0 \<le> remainingBalance row) (schedule (calculate p))"
    using calculate_rows_ok [of p] by (simp add: row_ok_def list_all_iff)
  with True show ?thesis using calculate_inv [OF True] by (simp add: loop_inv_def)
next
  case False
  then show ?thesis by (simp add: calculate_nonpos zero_result_def)
qed

text \<open>
  C4: the two totals are the sums of the interest and payment columns of the schedule.
\<close>

theorem calculate_totals_are_column_sums:
  "totalInterest (calculate p) = sum_list (map interestPaid (schedule (calculate p))) \<and>
   totalPaid (calculate p) = sum_list (map paymentAmount (schedule (calculate p)))"
proof (cases "0 < number_of_payments p")
  case True
  then show ?thesis using calculate_inv [OF True] by (simp add: loop_inv_def)
next
  case False
  then show ?thesis by (simp add: calculate_nonpos zero_result_def)
qed

text \<open>
  C5: the schedule repays the loan: when there is at least one payment, the principal
  column sums to the clamped loan amount \<open>max(loanAmount, 0)\<close>.
\<close>

theorem calculate_principal_repaid:
  assumes "0 < number_of_payments p"
  shows "sum_list (map principalPaid (schedule (calculate p))) = max (loanAmount p) 0"
  using calculate_inv [OF assms] by (simp add: loop_inv_def)

theorem calculate_principal_repaid_witness:
  "0 < number_of_payments \<lparr>loanAmount = 1000 :: rat, interestRate = 12, termYears = 1/6,
                           paymentsPerYear = MONTHLY\<rparr> \<and>
   sum_list (map principalPaid (schedule (calculate \<lparr>loanAmount = 1000 :: rat, interestRate = 12,
                           termYears = 1/6, paymentsPerYear = MONTHLY\<rparr>))) = 1000"
proof -
  have h: "0 < number_of_payments \<lparr>loanAmount = 1000 :: rat, interestRate = 12, termYears = 1/6,
                           paymentsPerYear = MONTHLY\<rparr>"
    by (simp add: number_of_payments_def round_def)
  show ?thesis using h calculate_principal_repaid [OF h] by simp
qed

text \<open>
  Everything paid is principal or interest: the total paid is the clamped principal
  (none when there are no payments) plus the total interest.
\<close>

lemma calculate_total_paid_split:
  "totalPaid (calculate p) =
     (if 0 < number_of_payments p then max (loanAmount p) 0 else 0) + totalInterest (calculate p)"
proof (cases "0 < number_of_payments p")
  case True
  have "sum_list (map principalPaid (schedule (calculate p))) = max (loanAmount p) 0"
    using calculate_inv [OF True] by (simp add: loop_inv_def)
  then show ?thesis using True calculate_paid_eq [of p] by simp
next
  case False
  then show ?thesis by (simp add: calculate_nonpos zero_result_def)
qed

text \<open>
  C6: every row is well formed: \<open>id\<close> equals the payment number, interest and principal
  are non-negative and add up to the row's payment, and the balance is non-negative.
  The balances chain down from the clamped principal: each row's balance is the
  previous one less exactly the row's principal, so the clamp
  \<open>Math.max(remainingBalance, 0)\<close> never cuts a balance.
\<close>

theorem calculate_rows_well_formed:
  "list_all (\<lambda>row. paymentId row = paymentNumber row \<and> 0 \<le> interestPaid row \<and>
                   0 \<le> principalPaid row \<and> paymentAmount row = principalPaid row + interestPaid row \<and>
                   0 \<le> remainingBalance row) (schedule (calculate p)) \<and>
   balance_chain (max (loanAmount p) 0) (schedule (calculate p))"
proof (cases "0 < number_of_payments p")
  case True
  then show ?thesis using calculate_inv [OF True] by (simp add: loop_inv_def list_all_iff row_ok_def)
next
  case False
  then show ?thesis by (simp add: calculate_nonpos zero_result_def)
qed

text \<open>
  C7: the rows are numbered \<open>1, 2, \<dots>, n\<close> in order, in both \<open>id\<close> and
  \<open>paymentNumber\<close>.
\<close>

theorem calculate_payment_numbers:
  "map paymentId (schedule (calculate p)) = [1..number_of_payments p] \<and>
   map paymentNumber (schedule (calculate p)) = [1..number_of_payments p]"
proof -
  have "map paymentId (schedule (calculate p)) = map paymentNumber (schedule (calculate p))"
    using calculate_rows_ok [of p] by (induction "schedule (calculate p)") (auto simp: row_ok_def list_all_iff)
  then show ?thesis by (simp add: calculate_numbers)
qed

text \<open>
  C8: when \<open>termYears * paymentsPerYear\<close> rounds to no payment at all (it is below
  one half), the early return gives the zero result: no payment, no totals, an empty
  schedule. With the divisions of the source (\<open>calculate_js\<close>), every such input,
  \<open>numberOfPayments = 0\<close> included, takes the early return; without it the level
  payment at zero payments would divide by zero.
\<close>

theorem calculate_empty_when_no_payments:
  assumes "termYears p * of_int (payment_frequency_value (paymentsPerYear p)) < 1/2"
  shows "calculate_js p = Some \<lparr>periodicPayment = 0, totalInterest = 0, totalPaid = 0, schedule = []\<rparr>"
proof -
  have "number_of_payments p \<le> 0"
    using assms number_of_payments_pos_iff [of p] by linarith
  then show ?thesis by (simp add: calculate_js_def zero_result_def)
qed

theorem calculate_empty_when_no_payments_witness:
  "termYears \<lparr>loanAmount = 450000 :: rat, interestRate = 23/4, termYears = 0,
              paymentsPerYear = MONTHLY\<rparr> * 12 < 1/2 \<and>
   calculate_js \<lparr>loanAmount = 450000 :: rat, interestRate = 23/4, termYears = 0,
              paymentsPerYear = MONTHLY\<rparr> =
     Some \<lparr>periodicPayment = 0, totalInterest = 0, totalPaid = 0, schedule = []\<rparr>"
  using calculate_empty_when_no_payments [of "\<lparr>loanAmount = 450000 :: rat, interestRate = 23/4,
              termYears = 0, paymentsPerYear = MONTHLY\<rparr>"]
  by simp

section \<open>Straight-line and empty loans\<close>

text \<open>
  With a zero rate the level payment is \<open>q = P / n\<close>; before iteration \<open>k\<close> the balance
  is \<open>(n + 1 - k) q\<close> and every row so far has no interest and principal \<open>q\<close>.
\<close>

definition straight_line_inv :: "int \<Rightarrow> 'a::linordered_field \<Rightarrow> int \<Rightarrow> 'a amortization_state \<Rightarrow> bool" where
  "straight_line_inv n q k st \<longleftrightarrow>
     loop_balance st = of_int (n + 1 - k) * q \<and> loop_interest st = 0 \<and>
     list_all (\<lambda>row. interestPaid row = 0 \<and> principalPaid row = q) (loop_schedule st)"

lemma straight_line_step:
  assumes q: "0 \<le> q" and k: "1 \<le> k" "k \<le> n" and inv: "straight_line_inv n q k st"
  shows "straight_line_inv n q (k + 1) (payment_step n 0 q k st)"
proof -
  let ?b = "loop_balance st"
  have b: "?b = of_int (n + 1 - k) * q" using inv by (simp add: straight_line_inv_def)
  have "1 \<le> (of_int (n + 1 - k) :: 'a)" using k by simp
  then have q_le: "q \<le> ?b" using b q mult_right_mono [of 1 "of_int (n + 1 - k)" q] by simp
  have b0: "0 \<le> ?b" using q q_le by simp
  have pp: "principal_portion n q k ?b 0 = q"
  proof (cases "k = n")
    case True
    then show ?thesis using b by (simp add: principal_portion_def)
  next
    case False
    then show ?thesis using q q_le by (simp add: principal_portion_def)
  qed
  have "?b - q = of_int (n + 1 - (k + 1)) * q"
    using b by (simp add: algebra_simps)
  then show ?thesis
    using inv pp by (simp add: straight_line_inv_def payment_step_eq [OF b0])
qed

lemma level_payment_zero_rate: "level_payment P 0 n = P / of_int n"
  by (simp add: level_payment_def)

lemma rate_per_period_zero_iff: "rate_per_period p = 0 \<longleftrightarrow> interestRate p = 0"
  by (simp add: rate_per_period_def)

text \<open>
  C10: with a zero interest rate and at least one payment the amortization is straight-line: every row pays no
  interest and the same principal \<open>P / n\<close>, the final row included, and the level payment
  is \<open>P / n\<close>.
\<close>

theorem calculate_zero_rate_straight_line:
  assumes "interestRate p = 0" and pos: "0 < number_of_payments p"
  shows "periodicPayment (calculate p) = max (loanAmount p) 0 / of_int (number_of_payments p) \<and>
         totalInterest (calculate p) = 0 \<and>
         list_all (\<lambda>row. interestPaid row = 0 \<and>
                        principalPaid row = max (loanAmount p) 0 / of_int (number_of_payments p))
           (schedule (calculate p))"
proof -
  let ?n = "number_of_payments p" and ?P = "max (loanAmount p) 0"
  let ?q = "?P / of_int ?n"
  have q: "0 \<le> ?q" using pos by simp
  have init: "straight_line_inv ?n ?q 1 (initial_state ?P)"
    using pos by (simp add: straight_line_inv_def initial_state_def)
  have r: "rate_per_period p = 0" using assms by (simp add: rate_per_period_def)
  have "straight_line_inv ?n ?q (?n + 1) (payment_loop ?n 0 ?q 1 (initial_state ?P))"
  proof (rule payment_loop_rule [where Q = "straight_line_inv ?n ?q"])
    show "\<And>j s. 1 \<le> j \<Longrightarrow> j \<le> ?n \<Longrightarrow> straight_line_inv ?n ?q j s \<Longrightarrow>
            straight_line_inv ?n ?q (j + 1) (payment_step ?n 0 ?q j s)"
      by (rule straight_line_step [OF q])
  qed (use pos init in simp_all)
  with pos show ?thesis
    by (simp add: calculate_def Let_def r level_payment_zero_rate straight_line_inv_def)
qed

theorem calculate_zero_rate_straight_line_witness:
  "interestRate \<lparr>loanAmount = 100000 :: rat, interestRate = 0, termYears = 1/4,
                 paymentsPerYear = MONTHLY\<rparr> = 0 \<and>
   0 < number_of_payments \<lparr>loanAmount = 100000 :: rat, interestRate = 0, termYears = 1/4,
                 paymentsPerYear = MONTHLY\<rparr> \<and>
   periodicPayment (calculate \<lparr>loanAmount = 100000 :: rat, interestRate = 0, termYears = 1/4,
                 paymentsPerYear = MONTHLY\<rparr>) = 100000 / 3"
proof -
  have h: "interestRate \<lparr>loanAmount = 100000 :: rat, interestRate = 0, termYears = 1/4,
                 paymentsPerYear = MONTHLY\<rparr> = 0" by simp
  have n: "number_of_payments \<lparr>loanAmount = 100000 :: rat, interestRate = 0, termYears = 1/4,
                 paymentsPerYear = MONTHLY\<rparr> = 3"
    by (simp add: number_of_payments_def round_def floor_eq_iff)
  have pos: "0 < number_of_payments \<lparr>loanAmount = 100000 :: rat, interestRate = 0, termYears = 1/4,
                 paymentsPerYear = MONTHLY\<rparr>" using n by simp
  show ?thesis using calculate_zero_rate_straight_line [OF h pos] n by simp
qed








text \<open>
  A \<open>fold\<close> over the range \<open>[k..n]\<close> is the guarded loop started at \<open>k\<close>: induction on
  the number of iterations left, unfolding one element of the range (\<open>upto_rec1\<close>) and
  one iteration of the loop.
\<close>

lemma fold_upto_payment_loop:
  "fold (payment_step n r pay) [k..n] st = payment_loop n r pay k st"
proof (induction "nat (n + 1 - k)" arbitrary: k st)
  case 0
  then have "n < k" by simp
  then show ?case by (simp add: payment_loop.simps [of n r pay k])
next
  case (Suc m)
  then have k: "k \<le> n" and m: "m = nat (n + 1 - (k + 1))" by simp_all
  have "fold (payment_step n r pay) [k..n] st =
          fold (payment_step n r pay) [k + 1..n] (payment_step n r pay k st)"
    using k by (simp add: upto_rec1 [of k n])
  also have "\<dots> = payment_loop n r pay (k + 1) (payment_step n r pay k st)"
    using Suc.hyps(1) [OF m] .
  finally show ?case using k by (simp add: payment_loop.simps [of n r pay k])
qed

lemma payment_step_schedule:
  "loop_schedule (payment_step n r pay k st) =
     loop_schedule st @ [last (loop_schedule (payment_step n r pay k st))] \<and>
   paymentNumber (last (loop_schedule (payment_step n r pay k st))) = k"
  by (simp add: payment_step_def Let_def)

lemma fold_payment_step_rows:
  "\<exists>rows. loop_schedule (fold (payment_step n r pay) js st) = loop_schedule st @ rows \<and>
          map paymentNumber rows = js"
proof (induction js arbitrary: st)
  case Nil
  then show ?case by simp
next
  case (Cons j js)
  obtain rows where rows:
    "loop_schedule (fold (payment_step n r pay) js (payment_step n r pay j st)) =
       loop_schedule (payment_step n r pay j st) @ rows" "map paymentNumber rows = js"
    using Cons.IH by blast
  let ?row = "last (loop_schedule (payment_step n r pay j st))"
  have "loop_schedule (fold (payment_step n r pay) (j # js) st) = loop_schedule st @ (?row # rows)"
    using rows(1) payment_step_schedule [of n r pay j st] by simp
  moreover have "map paymentNumber (?row # rows) = j # js"
    using rows(2) payment_step_schedule [of n r pay j st] by simp
  ultimately show ?case by (intro exI [of _ "?row # rows"] conjI)
qed

end
