(* ===== verification/Annuity.thy ===== *)
theory Annuity
  imports LoanCalculator
begin

text \<open>
  The abstract specification of the engine for a positive rate: the closed form of
  fixed-rate amortization. With periodic rate \<open>r > 0\<close>, \<open>n\<close> periods and principal \<open>P\<close>,
  let \<open>F = (1 + r)^n\<close>; after \<open>k\<close> payments of the level amount \<open>P r F / (F - 1)\<close> the balance
  is \<open>B k = P (F - (1 + r)^k) / (F - 1)\<close>, and payment \<open>k\<close> pays interest \<open>r B (k - 1)\<close>.
  The schedule of \<open>calculate\<close> is exactly this schedule: in exact arithmetic the clamps
  never fire and the final-period override changes nothing; it only absorbs the
  residue that floating point leaves.
\<close>

section \<open>The closed form\<close>

definition annuity_payment :: "'a::linordered_field \<Rightarrow> 'a \<Rightarrow> int \<Rightarrow> 'a" where
  "annuity_payment P r n = P * r * (1 + r) ^ nat n / ((1 + r) ^ nat n - 1)"

definition annuity_balance :: "'a::linordered_field \<Rightarrow> 'a \<Rightarrow> int \<Rightarrow> int \<Rightarrow> 'a" where
  "annuity_balance P r n k = P * ((1 + r) ^ nat n - (1 + r) ^ nat k) / ((1 + r) ^ nat n - 1)"

definition annuity_row :: "'a::linordered_field \<Rightarrow> 'a \<Rightarrow> int \<Rightarrow> int \<Rightarrow> 'a amortization_payment" where
  "annuity_row P r n k =
     (let pay = annuity_payment P r n; i = r * annuity_balance P r n (k - 1)
      in \<lparr>paymentId = k, paymentNumber = k, paymentAmount = pay, interestPaid = i,
          principalPaid = pay - i, remainingBalance = annuity_balance P r n k\<rparr>)"

definition annuity_schedule :: "'a::linordered_field \<Rightarrow> 'a \<Rightarrow> int \<Rightarrow> 'a amortization_payment list" where
  "annuity_schedule P r n = map (annuity_row P r n) [1..n]"

section \<open>Facts about the closed form\<close>

lemma annuity_identity:
  fixes P r F x D :: "'a::field"
  shows "P * (F - x) / D * (1 + r) - P * (r * F) / D = P * (F - x * (1 + r)) / D"
proof -
  have "P * (F - x) / D * (1 + r) - P * (r * F) / D = (P * (F - x) * (1 + r) - P * (r * F)) / D"
    by (simp add: diff_divide_distrib)
  also have "P * (F - x) * (1 + r) - P * (r * F) = P * (F - x * (1 + r))"
    by (simp add: algebra_simps)
  finally show ?thesis .
qed

text \<open>One period: interest accrues on the balance and the level payment is taken off.\<close>

lemma annuity_balance_step:
  assumes "0 \<le> j"
  shows "annuity_balance P r n j * (1 + r) - annuity_payment P r n = annuity_balance P r n (j + 1)"
proof -
  have "nat (j + 1) = Suc (nat j)" using assms by simp
  then show ?thesis
    using annuity_identity [of P "(1 + r) ^ nat n" "(1 + r) ^ nat j" "(1 + r) ^ nat n - 1" r]
    by (simp add: annuity_balance_def annuity_payment_def mult.commute mult.left_commute)
qed

text \<open>For a non-zero rate the engine's \<open>paymentAmount\<close> is the annuity payment.\<close>

lemma level_payment_annuity: "r \<noteq> 0 \<Longrightarrow> level_payment P r n = annuity_payment P r n"
  by (simp add: level_payment_def annuity_payment_def Let_def mult.assoc)

lemma annuity_balance_0: "annuity_balance P r n 0 = P"
  if "0 < r" "0 < n" for P r :: "'a::linordered_field"
proof -
  have "1 < (1 + r) ^ nat n" using that by (simp add: one_less_power)
  then show ?thesis by (simp add: annuity_balance_def)
qed

lemma annuity_balance_n [simp]: "annuity_balance P r n n = 0"
  by (simp add: annuity_balance_def)

lemma annuity_balance_nonneg:
  assumes "0 < r" "0 < n" "0 \<le> P" "k \<le> n"
  shows "0 \<le> annuity_balance P r n k"
proof -
  have "(1 + r) ^ nat k \<le> (1 + r) ^ nat n"
    using assms by (intro power_increasing) simp_all
  moreover have "1 < (1 + r) ^ nat n" using assms by (simp add: one_less_power)
  ultimately show ?thesis using assms(3) by (simp add: annuity_balance_def)
qed

lemma annuity_balance_mono:
  assumes "0 < r" "0 < n" "0 \<le> P" "0 \<le> j"
  shows "annuity_balance P r n (j + 1) \<le> annuity_balance P r n j"
proof -
  have "(1 + r) ^ nat j \<le> (1 + r) ^ nat (j + 1)"
    using assms by (intro power_increasing) simp_all
  moreover have "1 < (1 + r) ^ nat n" using assms by (simp add: one_less_power)
  ultimately show ?thesis
    using assms(3) by (simp add: annuity_balance_def divide_right_mono mult_left_mono)
qed

section \<open>The loop implements the closed form\<close>

definition annuity_inv :: "'a::linordered_field \<Rightarrow> 'a \<Rightarrow> int \<Rightarrow> int \<Rightarrow> 'a amortization_state \<Rightarrow> bool" where
  "annuity_inv P r n k st \<longleftrightarrow>
     loop_balance st = annuity_balance P r n (k - 1) \<and>
     loop_schedule st = map (annuity_row P r n) [1..k - 1]"

lemma annuity_inv_step:
  assumes r: "0 < r" and P: "0 \<le> P" and k: "1 \<le> k" "k \<le> n"
    and inv: "annuity_inv P r n k st"
  shows "annuity_inv P r n (k + 1) (payment_step n r (level_payment P r n) k st)"
proof -
  let ?b = "annuity_balance P r n (k - 1)" and ?b' = "annuity_balance P r n k"
  let ?pay = "level_payment P r n"
  have pay: "?pay = annuity_payment P r n" using r by (simp add: level_payment_annuity)
  have bal: "loop_balance st = ?b" using inv by (simp add: annuity_inv_def)
  have b0: "0 \<le> ?b" using r P k by (intro annuity_balance_nonneg) simp_all
  have b'0: "0 \<le> ?b'" using r P k by (intro annuity_balance_nonneg) simp_all
  have mono: "?b' \<le> ?b" using annuity_balance_mono [of r n P "k - 1"] r P k by simp
  have key: "?pay - ?b * r = ?b - ?b'"
    using annuity_balance_step [of "k - 1" P r n] pay k by (simp add: algebra_simps)
  have pp: "principal_portion n ?pay k ?b (?b * r) = ?b - ?b'"
  proof (cases "k = n")
    case True
    then show ?thesis by simp
  next
    case False
    then show ?thesis using key mono b'0 by (simp add: principal_portion_def)
  qed
  have i0: "max (?b * r) 0 = ?b * r" using b0 r by simp
  have row: "\<lparr>paymentId = k, paymentNumber = k, paymentAmount = (?b - ?b') + ?b * r,
              interestPaid = ?b * r, principalPaid = ?b - ?b', remainingBalance = ?b - (?b - ?b')\<rparr>
             = annuity_row P r n k"
    using key pay by (simp add: annuity_row_def Let_def algebra_simps)
  have upto: "[1..k] = [1..k - 1] @ [k]" using k(1) upto_rec2 [of 1 k] by simp
  have b0': "0 \<le> loop_balance st" using bal b0 by simp
  show ?thesis
    using inv bal pp i0 upto row [symmetric]
    by (simp add: annuity_inv_def payment_step_eq [OF b0'])
qed

lemma annuity_loop:
  assumes "0 < r" "0 \<le> P" "0 < n"
  shows "annuity_inv P r n (n + 1) (payment_loop n r (level_payment P r n) 1 (initial_state P))"
proof (rule payment_loop_rule [where Q = "annuity_inv P r n"])
  show "\<And>j s. 1 \<le> j \<Longrightarrow> j \<le> n \<Longrightarrow> annuity_inv P r n j s \<Longrightarrow>
          annuity_inv P r n (j + 1) (payment_step n r (level_payment P r n) j s)"
    using assms(1,2) by (rule annuity_inv_step)
qed (use assms in \<open>simp_all add: annuity_inv_def initial_state_def annuity_balance_0\<close>)

lemma rate_per_period_pos: "0 < interestRate p \<Longrightarrow> 0 < rate_per_period p"
  by (simp add: rate_per_period_def)

lemma calculate_annuity:
  assumes "0 < interestRate p" "0 < number_of_payments p"
  shows "annuity_inv (max (loanAmount p) 0) (rate_per_period p) (number_of_payments p)
           (number_of_payments p + 1)
           \<lparr>loop_balance = 0, loop_schedule = schedule (calculate p),
            loop_interest = totalInterest (calculate p), loop_paid = totalPaid (calculate p)\<rparr> \<and>
         periodicPayment (calculate p) =
           level_payment (max (loanAmount p) 0) (rate_per_period p) (number_of_payments p)"
  using annuity_loop [OF rate_per_period_pos [OF assms(1)] _ assms(2), of "max (loanAmount p) 0"] assms(2)
  by (simp add: calculate_def Let_def annuity_inv_def)

section \<open>Refinement theorems\<close>

text \<open>
  C13: for a positive interest rate and at least one payment, the schedule computed by
  the loop is the closed-form annuity schedule: row \<open>k\<close> pays the level payment, interest
  \<open>r B (k - 1)\<close>, principal the rest, and leaves the balance \<open>B k\<close>.
\<close>

theorem calculate_refines_annuity:
  assumes "0 < interestRate p" "0 < number_of_payments p"
  shows "schedule (calculate p) =
           annuity_schedule (max (loanAmount p) 0) (rate_per_period p) (number_of_payments p)"
  using calculate_annuity [OF assms] by (simp add: annuity_inv_def annuity_schedule_def)

theorem calculate_refines_annuity_witness:
  "0 < interestRate \<lparr>loanAmount = 1000 :: rat, interestRate = 12, termYears = 1/6,
                     paymentsPerYear = MONTHLY\<rparr> \<and>
   0 < number_of_payments \<lparr>loanAmount = 1000 :: rat, interestRate = 12, termYears = 1/6,
                     paymentsPerYear = MONTHLY\<rparr> \<and>
   schedule (calculate \<lparr>loanAmount = 1000 :: rat, interestRate = 12, termYears = 1/6,
                     paymentsPerYear = MONTHLY\<rparr>) = annuity_schedule 1000 (1/100) 2"
proof -
  have h1: "0 < interestRate \<lparr>loanAmount = 1000 :: rat, interestRate = 12, termYears = 1/6,
                     paymentsPerYear = MONTHLY\<rparr>" by simp
  have h2: "0 < number_of_payments \<lparr>loanAmount = 1000 :: rat, interestRate = 12, termYears = 1/6,
                     paymentsPerYear = MONTHLY\<rparr>"
    by (simp add: number_of_payments_def round_def)
  have n: "number_of_payments \<lparr>loanAmount = 1000 :: rat, interestRate = 12, termYears = 1/6,
                     paymentsPerYear = MONTHLY\<rparr> = 2"
    by (simp add: number_of_payments_def round_def floor_eq_iff)
  show ?thesis
    using h1 h2 n calculate_refines_annuity [OF h1 h2] by (simp add: rate_per_period_def)
qed

end
