(* ===== verification/Formatters.thy ===== *)
theory Formatters
  imports Prelude
begin

text \<open>
  \<open>src/mobile/src/utils/formatters.ts\<close>: \<open>formatCurrency\<close>, \<open>formatPercentage\<close>,
  \<open>parseCurrency\<close>, \<open>parsePercentage\<close>, with the parts of the JavaScript platform they
  call modelled from the ECMAScript and ECMA-402 specifications: \<open>parseFloat\<close>,
  \<open>Number.prototype.toFixed\<close>, \<open>String.prototype.replace\<close> with a string pattern and with
  the regular expression \<open>/[^\d.]/g\<close>, the \<open>|| 0\<close> fallback, and the en-US currency
  format of \<open>Intl.NumberFormat\<close>. Strings are \<open>char\<close> lists, one \<open>char\<close> per UTF-16 code
  unit below 256; numbers are exact (no rounding to doubles). The theorems: the
  currency parser returns a finite non-negative number on every input, the rate field's
  text round-trips to the rate rounded to three decimals, the currency text round-trips
  to the amount rounded to cents without its sign, and \<open>toFixed\<close> errs by at most half
  a unit of its last digit.
\<close>

section \<open>Decimal digits\<close>

definition is_digit :: "char \<Rightarrow> bool" where
  "is_digit c \<longleftrightarrow> 48 \<le> (of_char c :: nat) \<and> (of_char c :: nat) \<le> 57"

definition digit_value :: "char \<Rightarrow> nat" where
  "digit_value c = of_char c - 48"

definition digit_char :: "nat \<Rightarrow> char" where
  "digit_char d = char_of (48 + d)"

definition digits_value :: "string \<Rightarrow> nat" where
  "digits_value ds = foldl (\<lambda>acc c. 10 * acc + digit_value c) 0 ds"

fun nat_digits :: "nat \<Rightarrow> string" where
  "nat_digits n = (if n < 10 then [digit_char n] else nat_digits (n div 10) @ [digit_char (n mod 10)])"

declare nat_digits.simps [simp del]

lemma digit_char_value [simp]: "d < 10 \<Longrightarrow> digit_value (digit_char d) = d"
  by (simp add: digit_value_def digit_char_def)

lemma is_digit_digit_char [simp]: "d < 10 \<Longrightarrow> is_digit (digit_char d)"
  by (simp add: is_digit_def digit_char_def)

lemma digits_value_snoc [simp]: "digits_value (ds @ [c]) = 10 * digits_value ds + digit_value c"
  by (simp add: digits_value_def)

lemma digits_value_Nil [simp]: "digits_value [] = 0"
  by (simp add: digits_value_def)

lemma digits_value_zeros: "digits_value (replicate k (CHR ''0'') @ ds) = digits_value ds"
proof -
  have z: "foldl (\<lambda>acc c. 10 * acc + digit_value c) 0 (replicate k (CHR ''0'')) = 0"
    by (induction k) (simp_all add: digit_value_def replicate_app_Cons_same [symmetric])
  show ?thesis by (simp add: digits_value_def z)
qed

lemma nat_digits_value [simp]: "digits_value (nat_digits n) = n"
proof (induction n rule: nat_digits.induct)
  case (1 n)
  show ?case
  proof (cases "n < 10")
    case True
    then show ?thesis
      using digits_value_snoc [of "[]" "digit_char n"] by (simp add: nat_digits.simps [of n])
  next
    case False
    then show ?thesis using "1.IH" by (simp add: nat_digits.simps [of n])
  qed
qed

lemma nat_digits_digits: "list_all is_digit (nat_digits n)"
  by (induction n rule: nat_digits.induct) (subst nat_digits.simps, simp)

lemma nat_digits_ne [simp]: "nat_digits n \<noteq> []"
  by (subst nat_digits.simps) simp

section \<open>parseFloat\<close>

text \<open>
  A JavaScript number as \<open>parseFloat\<close> can return it: a finite value, an infinity with
  its sign (\<open>True\<close> for \<open>-Infinity\<close>), or \<open>NaN\<close>.
\<close>

datatype 'a js_number = JSNumber 'a | JSInfinity bool | JSNaN

text \<open>
  JavaScript strings are sequences of UTF-16 code units; a \<open>char\<close> stands for a code unit
  below 256. The white space \<open>TrimString\<close> removes in that range: TAB, LF, VT, FF, CR,
  SPACE and NO-BREAK SPACE.
\<close>

definition is_js_whitespace :: "char \<Rightarrow> bool" where
  "is_js_whitespace c \<longleftrightarrow> (of_char c :: nat) \<in> {9, 10, 11, 12, 13, 32, 160}"

definition sign_prefix :: "string \<Rightarrow> bool \<times> string" where
  "sign_prefix s =
     (case s of [] \<Rightarrow> (False, [])
      | c # t \<Rightarrow> if c = CHR ''-'' then (True, t) else if c = CHR ''+'' then (False, t) else (False, s))"

text \<open>\<open>ExponentPart\<close>: an \<open>e\<close> or \<open>E\<close>, an optional sign and at least one digit; else none.\<close>

definition exponent_part :: "string \<Rightarrow> int" where
  "exponent_part r =
     (case r of [] \<Rightarrow> 0
      | c # t \<Rightarrow>
          if c = CHR ''e'' \<or> c = CHR ''E'' then
            (let (neg, t') = sign_prefix t; ds = takeWhile is_digit t'
             in if ds = [] then 0
                else if neg then - int (digits_value ds) else int (digits_value ds))
          else 0)"

definition scale10 :: "int \<Rightarrow> 'a::field" where
  "scale10 e = (if 0 \<le> e then 10 ^ nat e else 1 / 10 ^ nat (- e))"

text \<open>
  \<open>parseFloat(string)\<close> (ECMAScript, section 19.2.4): trim leading white space, then
  read the longest prefix that is a \<open>StrDecimalLiteral\<close>: an optional sign, then
  \<open>Infinity\<close> or digits with an optional fraction and exponent. The scan below is
  greedy, which finds that longest prefix; \<open>NaN\<close> when no prefix is a literal. The
  value is exact: neither the rounding to a double nor the overflow of a numeral beyond
  the range of doubles (about \<open>1.8e308\<close>) to \<open>Infinity\<close> is modelled.
\<close>

definition parse_float :: "string \<Rightarrow> 'a::field js_number" where
  "parse_float str =
     (let (neg, s1) = sign_prefix (dropWhile is_js_whitespace str)
      in if take 8 s1 = ''Infinity'' then JSInfinity neg
         else (let d1 = takeWhile is_digit s1; r1 = dropWhile is_digit s1;
                   (d2, r2) = (case r1 of [] \<Rightarrow> ([], [])
                               | c # t \<Rightarrow> if c = CHR ''.'' then (takeWhile is_digit t, dropWhile is_digit t)
                                          else ([], r1))
               in if d1 = [] \<and> d2 = [] then JSNaN
                  else JSNumber ((if neg then -1 else 1) * of_nat (digits_value (d1 @ d2)) *
                                 scale10 (exponent_part r2 - int (length d2)))))"

text \<open>\<open>x || 0\<close> on the result: \<open>NaN\<close> (and zero, negative zero included) become 0.\<close>

definition js_or_zero :: "'a::zero js_number \<Rightarrow> 'a js_number" where
  "js_or_zero v = (case v of JSNaN \<Rightarrow> JSNumber 0 | _ \<Rightarrow> v)"

section \<open>Reading a fixed-point string\<close>

lemma takeWhile_digits_append:
  "list_all is_digit ds \<Longrightarrow> \<not> is_digit c \<Longrightarrow> takeWhile is_digit (ds @ c # r) = ds"
  by (induction ds) simp_all

lemma dropWhile_digits_append:
  "list_all is_digit ds \<Longrightarrow> \<not> is_digit c \<Longrightarrow> dropWhile is_digit (ds @ c # r) = c # r"
  by (induction ds) simp_all

lemma takeWhile_all [simp]: "list_all P ds \<Longrightarrow> takeWhile P ds = ds"
  by (induction ds) simp_all

lemma dropWhile_all [simp]: "list_all P ds \<Longrightarrow> dropWhile P ds = []"
  by (induction ds) simp_all

lemma dot_not_digit [simp]: "\<not> is_digit (CHR ''.'')"
  by (simp add: is_digit_def)

lemma minus_not_digit [simp]: "\<not> is_digit (CHR ''-'')"
  by (simp add: is_digit_def)

lemma dollar_not_digit [simp]: "\<not> is_digit (CHR ''$'')"
  by (simp add: is_digit_def)

lemma digit_not_ws: "is_digit c \<Longrightarrow> \<not> is_js_whitespace c"
  by (auto simp: is_digit_def is_js_whitespace_def)

lemma digit_not_sign: "is_digit c \<Longrightarrow> c \<noteq> CHR ''-'' \<and> c \<noteq> CHR ''+''"
  by (auto simp: is_digit_def)

lemma digit_not_I: "is_digit c \<Longrightarrow> c \<noteq> CHR ''I''"
  by (auto simp: is_digit_def)

text \<open>
  A string \<open>a.b\<close> of digits, \<open>a\<close> non-empty, possibly after a minus sign, reads as the
  integer \<open>ab\<close> scaled by \<open>10^-|b|\<close>.
\<close>

lemma parse_float_fixed:
  assumes a: "list_all is_digit a" "a \<noteq> []" and b: "list_all is_digit b"
  shows "parse_float ((if neg then ''-'' else []) @ a @ CHR ''.'' # b) =
           (JSNumber ((if neg then -1 else 1) * of_nat (digits_value (a @ b)) / 10 ^ length b)
              :: 'a::field js_number)"
proof -
  obtain c a' where ca: "a = c # a'" using a(2) by (cases a) auto
  have c: "is_digit c" using a ca by simp
  have ws: "dropWhile is_js_whitespace ((if neg then ''-'' else []) @ a @ CHR ''.'' # b) =
              (if neg then ''-'' else []) @ a @ CHR ''.'' # b"
    using c digit_not_ws [OF c] ca by (simp add: is_js_whitespace_def)
  have sp: "sign_prefix ((if neg then ''-'' else []) @ a @ CHR ''.'' # b) = (neg, a @ CHR ''.'' # b)"
    using digit_not_sign [OF c] ca by (simp add: sign_prefix_def)
  have inf: "take 8 (a @ CHR ''.'' # b) \<noteq> ''Infinity''"
    using digit_not_I [OF c] ca by simp
  have d1: "takeWhile is_digit (a @ CHR ''.'' # b) = a"
    and r1: "dropWhile is_digit (a @ CHR ''.'' # b) = CHR ''.'' # b"
    using a(1) by (simp_all add: takeWhile_digits_append dropWhile_digits_append)
  show ?thesis
    using ws sp inf d1 r1 a b
    by (simp add: parse_float_def exponent_part_def scale10_def Let_def)
qed

section \<open>The formatters of formatters.ts\<close>

text \<open>
  \<open>parseCurrency\<close>: \<open>value.replace(/[^\d.]/g, '')\<close> keeps the ASCII digits and dots,
  then \<open>parseFloat(cleaned) || 0\<close>.
\<close>

definition parse_currency :: "string \<Rightarrow> 'a::field js_number" where
  "parse_currency value = js_or_zero (parse_float (filter (\<lambda>c. is_digit c \<or> c = CHR ''.'') value))"

text \<open>\<open>value.replace('%', '')\<close> with a string pattern replaces the first occurrence only.\<close>

fun remove_first :: "char \<Rightarrow> string \<Rightarrow> string" where
  "remove_first c [] = []"
| "remove_first c (x # xs) = (if x = c then xs else x # remove_first c xs)"

definition parse_percentage :: "string \<Rightarrow> 'a::field js_number" where
  "parse_percentage value = js_or_zero (parse_float (remove_first (CHR ''%'') value))"

text \<open>
  \<open>Number.prototype.toFixed(f)\<close> for \<open>|x| < 10^21\<close>: the sign, then the integer \<open>n\<close>
  closest to \<open>|x| 10^f\<close> (the larger one on a tie), written with at least \<open>f + 1\<close> digits
  and a dot before the last \<open>f\<close>. For \<open>|x| \<ge> 10^21\<close> the method falls back to
  \<open>ToString\<close>, which is not modelled (\<open>None\<close>).
\<close>

definition fixed_point_digits :: "nat \<Rightarrow> nat \<Rightarrow> string" where
  "fixed_point_digits f n =
     (let m = nat_digits n
      in if f = 0 then m
         else (let m1 = (if length m \<le> f then replicate (f + 1 - length m) (CHR ''0'') @ m else m);
                   k = length m1
               in take (k - f) m1 @ CHR ''.'' # drop (k - f) m1))"

definition to_fixed :: "nat \<Rightarrow> 'a::floor_ceiling \<Rightarrow> string option" where
  "to_fixed f x =
     (if \<not> \<bar>x\<bar> < 10 ^ 21 then None
      else Some ((if x < 0 then ''-'' else []) @ fixed_point_digits f (nat \<lfloor>\<bar>x\<bar> * 10 ^ f + 1/2\<rfloor>)))"

text \<open>The number the string of \<open>toFixed(f)\<close> denotes.\<close>

definition to_fixed_value :: "nat \<Rightarrow> 'a::floor_ceiling \<Rightarrow> 'a" where
  "to_fixed_value f x = (if x < 0 then -1 else 1) * of_int \<lfloor>\<bar>x\<bar> * 10 ^ f + 1/2\<rfloor> / 10 ^ f"

text \<open>\<open>formatPercentage\<close>: \<open>`${value.toFixed(3)}%`\<close>.\<close>

definition format_percentage :: "'a::floor_ceiling \<Rightarrow> string option" where
  "format_percentage value = map_option (\<lambda>s. s @ ''%'') (to_fixed 3 value)"

text \<open>
  \<open>formatCurrency\<close>: \<open>Intl.NumberFormat('en-US', {style: 'currency', currency: 'USD',
  minimumFractionDigits: 2, maximumFractionDigits: 2})\<close>. The amount is rounded to cents
  half away from zero (\<open>halfExpand\<close>), the integer digits are grouped by three with
  commas, and a negative amount is prefixed by a minus sign before the dollar sign.
\<close>

fun group_thousands :: "string \<Rightarrow> string" where
  "group_thousands ds =
     (if length ds \<le> 3 then ds
      else group_thousands (take (length ds - 3) ds) @ CHR '','' # drop (length ds - 3) ds)"

declare group_thousands.simps [simp del]

definition format_currency :: "'a::floor_ceiling \<Rightarrow> string" where
  "format_currency value =
     (let c = nat \<lfloor>\<bar>value\<bar> * 100 + 1/2\<rfloor>
      in (if value < 0 then ''-'' else []) @ ''$'' @ group_thousands (nat_digits (c div 100)) @
         CHR ''.'' # [digit_char (c mod 100 div 10), digit_char (c mod 10)])"

section \<open>Round trips and bounds\<close>

lemma remove_first_absent: "c \<notin> set xs \<Longrightarrow> remove_first c xs = xs"
  by (induction xs) auto

lemma remove_first_snoc: "c \<notin> set xs \<Longrightarrow> remove_first c (xs @ [c]) = xs"
  by (induction xs) auto

lemma digits_no_char: "list_all is_digit ds \<Longrightarrow> \<not> is_digit c \<Longrightarrow> c \<notin> set ds"
  by (auto simp: list_all_iff)

lemma zeros_digits: "list_all is_digit (replicate k (CHR ''0''))"
  by (simp add: list_all_iff is_digit_def)

lemma fixed_point_digits_shape:
  assumes "0 < f"
  obtains a b where "fixed_point_digits f n = a @ CHR ''.'' # b" "list_all is_digit a" "a \<noteq> []"
    "list_all is_digit b" "length b = f" "digits_value (a @ b) = n"
proof -
  let ?m = "nat_digits n"
  define m1 where "m1 = (if length ?m \<le> f then replicate (f + 1 - length ?m) (CHR ''0'') @ ?m else ?m)"
  have len: "f < length m1" by (simp add: m1_def)
  have dig: "list_all is_digit m1"
    using nat_digits_digits [of n] zeros_digits by (simp add: m1_def)
  have val: "digits_value m1 = n" by (simp add: m1_def digits_value_zeros)
  let ?a = "take (length m1 - f) m1" and ?b = "drop (length m1 - f) m1"
  have "fixed_point_digits f n = ?a @ CHR ''.'' # ?b"
    using assms by (simp add: fixed_point_digits_def m1_def Let_def)
  moreover have "list_all is_digit ?a" "list_all is_digit ?b"
    using dig by (auto simp: list_all_iff dest: in_set_takeD in_set_dropD)
  moreover have "?a \<noteq> []" "length ?b = f" using len by auto
  moreover have "digits_value (?a @ ?b) = n" using val by simp
  ultimately show ?thesis using that by blast
qed

lemma to_fixed_parse:
  fixes x :: "'a::floor_ceiling"
  assumes "0 < f" "\<bar>x\<bar> < 10 ^ 21"
  obtains s where "to_fixed f x = Some s" "CHR ''%'' \<notin> set s"
    "parse_float s = JSNumber (to_fixed_value f x)"
proof -
  let ?n = "nat \<lfloor>\<bar>x\<bar> * 10 ^ f + 1/2\<rfloor>"
  obtain a b where ab: "fixed_point_digits f ?n = a @ CHR ''.'' # b" "list_all is_digit a" "a \<noteq> []"
    "list_all is_digit b" "length b = f" "digits_value (a @ b) = ?n"
    using fixed_point_digits_shape [OF assms(1)] by blast
  let ?s = "(if x < 0 then ''-'' else []) @ a @ CHR ''.'' # b"
  have "to_fixed f x = Some ?s" using assms(2) ab(1) by (simp add: to_fixed_def)
  moreover have "CHR ''%'' \<notin> set ?s"
    using digits_no_char [OF ab(2)] digits_no_char [OF ab(4)] by (auto simp: is_digit_def)
  moreover have "of_nat ?n = (of_int \<lfloor>\<bar>x\<bar> * 10 ^ f + 1/2\<rfloor> :: 'a)"
    by simp
  then have "parse_float ?s = JSNumber (to_fixed_value f x)"
    using parse_float_fixed [OF ab(2,3,4), of "x < 0"] ab(5,6) by (simp add: to_fixed_value_def)
  ultimately show ?thesis using that by blast
qed

lemma filter_group_thousands:
  "list_all is_digit ds \<Longrightarrow>
     filter (\<lambda>c. is_digit c \<or> c = CHR ''.'') (group_thousands ds) = ds"
proof (induction ds rule: group_thousands.induct)
  case (1 ds)
  show ?case
  proof (cases "length ds \<le> 3")
    case True
    then show ?thesis using "1.prems"
      by (simp add: group_thousands.simps [of ds] list_all_iff filter_id_conv)
  next
    case False
    have "list_all is_digit (take (length ds - 3) ds)" "list_all is_digit (drop (length ds - 3) ds)"
      using "1.prems" by (auto simp: list_all_iff dest: in_set_takeD in_set_dropD)
    then show ?thesis
      using "1.IH" False
      by (simp add: group_thousands.simps [of ds] list_all_iff filter_id_conv is_digit_def)
  qed
qed

lemma scale10_pos: "0 < (scale10 e :: 'a::linordered_field)"
  by (simp add: scale10_def)

lemma parse_float_digits_dots:
  assumes "list_all (\<lambda>c. is_digit c \<or> c = CHR ''.'') t"
  shows "parse_float t = JSNaN \<or> (\<exists>v::'a::linordered_field. 0 \<le> v \<and> parse_float t = JSNumber v)"
proof -
  have nows: "dropWhile is_js_whitespace t = t"
    using assms by (cases t) (auto simp: is_digit_def is_js_whitespace_def)
  have nosign: "sign_prefix t = (False, t)"
    using assms by (cases t) (auto simp: is_digit_def sign_prefix_def)
  have "CHR ''I'' \<notin> set t" using assms by (auto simp: list_all_iff is_digit_def)
  then have noinf: "take 8 t \<noteq> ''Infinity''"
    by (metis in_set_takeD list.set_intros(1))
  have s0: "0 \<le> (scale10 e :: 'a)" for e
    by (rule less_imp_le) (rule scale10_pos)
  have "0 \<le> (of_nat k * scale10 e :: 'a)" for k e
    using s0 [of e] by simp
  then show ?thesis
    using nows nosign noinf
    by (auto simp: parse_float_def Let_def split: prod.splits list.splits if_splits)
qed

lemma js_or_zero_number [simp]: "js_or_zero (JSNumber v) = JSNumber v"
  by (simp add: js_or_zero_def)

lemma digit_char_0: "digit_char 0 = CHR ''0''"
  by code_simp

lemma format_currency_zero: "format_currency (0 :: 'a::floor_ceiling) = ''$0.00''"
  by (simp add: format_currency_def group_thousands.simps nat_digits.simps digit_char_0)

lemma cents_digits:
  "100 * (c div 100) + 10 * (c mod 100 div 10) + c mod 10 = (c::nat)"
proof -
  have "c mod 100 = 10 * (c mod 100 div 10) + c mod 100 mod 10" by simp
  moreover have "c mod 100 mod 10 = c mod 10" by (simp add: mod_mod_cancel)
  ultimately show ?thesis by (metis add.assoc div_mult_mod_eq mult.commute)
qed

lemma parse_currency_obtain:
  obtains v where "0 \<le> v" "parse_currency s = (JSNumber v :: 'a::linordered_field js_number)"
proof -
  let ?t = "filter (\<lambda>c. is_digit c \<or> c = CHR ''.'') s"
  have "list_all (\<lambda>c. is_digit c \<or> c = CHR ''.'') ?t" by (simp add: list_all_iff)
  then have "parse_float ?t = (JSNaN :: 'a js_number) \<or> (\<exists>v::'a. 0 \<le> v \<and> parse_float ?t = JSNumber v)"
    by (rule parse_float_digits_dots)
  then show ?thesis using that by (auto simp: parse_currency_def js_or_zero_def)
qed

lemma js_or_zero_not_nan [simp]: "js_or_zero v \<noteq> JSNaN"
  by (simp add: js_or_zero_def split: js_number.split)

text \<open>The value \<open>toFixed(f)\<close> shows is within half a unit of its last digit of the number.\<close>

lemma to_fixed_value_error: "\<bar>to_fixed_value f x - x\<bar> \<le> 1 / (2 * 10 ^ f)"
proof -
  let ?y = "\<bar>x\<bar> * 10 ^ f"
  have r: "\<bar>of_int \<lfloor>?y + 1/2\<rfloor> - ?y\<bar> \<le> 1/2"
    using of_int_round_abs_le [of ?y] by (simp add: round_def)
  have p: "(0::'a) < 10 ^ f" by simp
  have "\<bar>to_fixed_value f x - x\<bar> = \<bar>of_int \<lfloor>?y + 1/2\<rfloor> - ?y\<bar> / 10 ^ f"
    using p by (cases "x < 0") (simp_all add: to_fixed_value_def field_simps abs_minus_commute)
  also have "\<dots> \<le> (1/2) / 10 ^ f"
    by (rule divide_right_mono) (use r p in simp_all)
  also have "(1/2) / 10 ^ f = 1 / (2 * 10 ^ f :: 'a)" by simp
  finally show ?thesis .
qed




lemma e_not_digit [simp]: "\<not> is_digit (CHR ''e'')"
  by (simp add: is_digit_def)



text \<open>
  C18: the interest-rate field round-trips: the text \<open>toFixed(3)\<close> puts in the field, and
  the same text with the \<open>%\<close> that \<open>formatPercentage\<close> appends, parse back under
  \<open>parsePercentage\<close> to the rate rounded to three decimals, which is within half a
  unit of the third decimal of the rate.
\<close>

theorem percentage_text_roundtrip:
  assumes "\<bar>x\<bar> < 10 ^ 21"
  shows "\<exists>s. to_fixed 3 x = Some s \<and> parse_percentage s = JSNumber (to_fixed_value 3 x) \<and>
             format_percentage x = Some (s @ ''%'') \<and>
             parse_percentage (s @ ''%'') = JSNumber (to_fixed_value 3 x) \<and>
             \<bar>to_fixed_value 3 x - x\<bar> \<le> 1 / 2000"
proof -
  obtain s where s: "to_fixed 3 x = Some s" "CHR ''%'' \<notin> set s"
    "parse_float s = JSNumber (to_fixed_value 3 x)"
    using to_fixed_parse [of 3 x] assms by auto
  moreover have "\<bar>to_fixed_value 3 x - x\<bar> \<le> 1 / 2000"
    using to_fixed_value_error [of 3 x] by simp
  ultimately show ?thesis
    by (simp add: parse_percentage_def format_percentage_def remove_first_absent
        remove_first_snoc)
qed

theorem percentage_text_roundtrip_witness:
  "\<bar>23/4 :: rat\<bar> < 10 ^ 21 \<and>
   (\<exists>s. to_fixed 3 (23/4 :: rat) = Some s \<and> parse_percentage s = JSNumber (23/4 :: rat))"
proof -
  have h: "\<bar>23/4 :: rat\<bar> < 10 ^ 21" by simp
  have fl: "\<lfloor>11501 / 2 :: rat\<rfloor> = 5750" by (simp add: floor_eq_iff)
  have v: "to_fixed_value 3 (23/4 :: rat) = 23/4" by (simp add: to_fixed_value_def fl)
  show ?thesis using percentage_text_roundtrip [OF h] h v by auto
qed

lemma filter_format_currency:
  fixes x :: "'a::floor_ceiling"
  defines "c \<equiv> nat \<lfloor>\<bar>x\<bar> * 100 + 1/2\<rfloor>"
  shows "filter (\<lambda>c. is_digit c \<or> c = CHR ''.'') (format_currency x) =
           nat_digits (c div 100) @ CHR ''.'' # [digit_char (c mod 100 div 10), digit_char (c mod 10)]"
proof -
  let ?a = "nat_digits (c div 100)" and ?b = "[digit_char (c mod 100 div 10), digit_char (c mod 10)]"
  let ?keep = "\<lambda>c. is_digit c \<or> c = CHR ''.''"
  have fg: "filter ?keep (group_thousands ?a) = ?a"
    by (rule filter_group_thousands [OF nat_digits_digits])
  have fs1: "filter ?keep (if x < 0 then ''-'' else []) = []" by simp
  have fs2: "filter ?keep ''$'' = []" by simp
  have fb: "filter ?keep (CHR ''.'' # ?b) = CHR ''.'' # ?b" by simp
  have "format_currency x = ((if x < 0 then ''-'' else []) @ ''$'') @ group_thousands ?a @ CHR ''.'' # ?b"
    unfolding format_currency_def Let_def c_def by simp
  then show ?thesis
    by (simp only: filter_append fs1 fs2 fg fb append_Nil)
qed
lemma parse_cents:
  "parse_float (nat_digits (c div 100) @ CHR ''.'' # [digit_char (c mod 100 div 10), digit_char (c mod 10)]) =
     (JSNumber (of_nat c / 100) :: 'a::field js_number)"
proof -
  let ?a = "nat_digits (c div 100)" and ?b = "[digit_char (c mod 100 div 10), digit_char (c mod 10)]"
  have b: "list_all is_digit ?b" by simp
  have v: "digits_value (?a @ ?b) = c"
    using cents_digits [of c] digits_value_snoc [of "?a @ [digit_char (c mod 100 div 10)]"]
    by simp
  show ?thesis
    using parse_float_fixed [OF nat_digits_digits nat_digits_ne b, of False, where 'a = 'a] v by simp
qed

text \<open>
  C19: what \<open>formatCurrency\<close> shows, \<open>parseCurrency\<close> reads back as the amount rounded
  to cents, but without its sign: a negative amount comes back positive.
\<close>

theorem currency_text_roundtrip:
  "parse_currency (format_currency x) =
     JSNumber (of_int \<lfloor>\<bar>x\<bar> * 100 + 1/2\<rfloor> / 100 :: 'a::floor_ceiling)"
proof -
  have "of_nat (nat \<lfloor>\<bar>x\<bar> * 100 + 1/2\<rfloor>) = (of_int \<lfloor>\<bar>x\<bar> * 100 + 1/2\<rfloor> :: 'a)"
    by simp
  then show ?thesis
    by (simp only: parse_currency_def filter_format_currency parse_cents js_or_zero_number)
qed



end
