(* ===== verification/InputForm.thy ===== *)
theory InputForm
  imports LoanParameters Formatters
begin

text \<open>
  The React Native input form, \<open>src/mobile/src/components/LoanInputForm.tsx\<close>. The
  screen (\<open>LoanCalculatorScreen.tsx\<close>) owns the parameters in a \<open>useState\<close> hook and
  hands \<open>setParameters\<close> to the form as \<open>onParametersChange\<close>; every handler of the
  form computes a new parameter record with \<open>updateParameter\<close> and passes it up. The
  state of this component is therefore the screen's \<open>loan_parameters\<close>, and each user
  action is one event of a step function. A rate text that \<open>parseFloat\<close> reads as an
  infinity would store a non-finite rate, which the exact model of numbers cannot hold:
  that step returns \<open>None\<close>.
\<close>

section \<open>Handlers\<close>

text \<open>\<open>updateParameter(key, value)\<close>: \<open>{...parameters, [key]: value}\<close>, one case per key.\<close>

datatype 'a parameter_update =
  SetLoanAmount 'a | SetInterestRate 'a | SetTermYears 'a | SetPaymentsPerYear payment_frequency

primrec update_parameter :: "'a loan_parameters \<Rightarrow> 'a parameter_update \<Rightarrow> 'a loan_parameters" where
  "update_parameter p (SetLoanAmount v) = p\<lparr>loanAmount := v\<rparr>"
| "update_parameter p (SetInterestRate v) = p\<lparr>interestRate := v\<rparr>"
| "update_parameter p (SetTermYears v) = p\<lparr>termYears := v\<rparr>"
| "update_parameter p (SetPaymentsPerYear f) = p\<lparr>paymentsPerYear := f\<rparr>"

definition handle_loan_amount_change ::
  "'a::field loan_parameters \<Rightarrow> string \<Rightarrow> 'a loan_parameters option" where
  "handle_loan_amount_change p text =
     (case parse_currency text of
        JSNumber v \<Rightarrow> Some (update_parameter p (SetLoanAmount v))
      | _ \<Rightarrow> None)"

definition handle_interest_rate_change ::
  "'a::field loan_parameters \<Rightarrow> string \<Rightarrow> 'a loan_parameters option" where
  "handle_interest_rate_change p text =
     (case parse_percentage text of
        JSNumber v \<Rightarrow> Some (update_parameter p (SetInterestRate v))
      | _ \<Rightarrow> None)"

definition adjust_term_years :: "'a::linordered_idom loan_parameters \<Rightarrow> 'a \<Rightarrow> 'a loan_parameters" where
  "adjust_term_years p increment =
     update_parameter p (SetTermYears (max 1 (min 40 (termYears p + increment))))"

section \<open>Form events\<close>

text \<open>
  What the user can do: type in the amount field or the rate field (\<open>onChangeText\<close>
  with the new text), press the minus or plus button of the term stepper
  (\<open>adjustTermYears(-1)\<close>, \<open>adjustTermYears(1)\<close>), or pick a frequency.
\<close>

datatype form_event =
  LoanAmountText string | InterestRateText string | TermMinus | TermPlus
  | PickFrequency payment_frequency

primrec form_step :: "'a::linordered_field loan_parameters \<Rightarrow> form_event \<Rightarrow> 'a loan_parameters option" where
  "form_step p (LoanAmountText t) = handle_loan_amount_change p t"
| "form_step p (InterestRateText t) = handle_interest_rate_change p t"
| "form_step p TermMinus = Some (adjust_term_years p (-1))"
| "form_step p TermPlus = Some (adjust_term_years p 1)"
| "form_step p (PickFrequency f) = Some (update_parameter p (SetPaymentsPerYear f))"

fun form_run :: "'a::linordered_field loan_parameters \<Rightarrow> form_event list \<Rightarrow> 'a loan_parameters option" where
  "form_run p [] = Some p"
| "form_run p (e # es) = (case form_step p e of None \<Rightarrow> None | Some q \<Rightarrow> form_run q es)"

text \<open>The texts the two fields display: \<open>formatCurrency(loanAmount)\<close> and \<open>interestRate.toFixed(3)\<close>.\<close>

definition amount_field_text :: "'a::floor_ceiling loan_parameters \<Rightarrow> string" where
  "amount_field_text p = format_currency (loanAmount p)"

definition rate_field_text :: "'a::floor_ceiling loan_parameters \<Rightarrow> string option" where
  "rate_field_text p = to_fixed 3 (interestRate p)"

section \<open>The form's invariant\<close>

text \<open>
  The amount is never negative and the term stays within the stepper's bounds: the
  amount field only stores what \<open>parseCurrency\<close> returns, and the term is only changed
  by \<open>adjustTermYears\<close>, which clamps it to \<open>[1, 40]\<close>.
\<close>

definition form_inv :: "'a::linordered_field loan_parameters \<Rightarrow> bool" where
  "form_inv p \<longleftrightarrow> 0 \<le> loanAmount p \<and> 1 \<le> termYears p \<and> termYears p \<le> 40"

lemma adjust_term_years_bounds:
  "1 \<le> termYears (adjust_term_years p i) \<and> termYears (adjust_term_years p i) \<le> 40"
  by (simp add: adjust_term_years_def)

lemma handle_loan_amount_change_Some:
  "handle_loan_amount_change (p :: 'a::linordered_field loan_parameters) t = Some q \<Longrightarrow>
     \<exists>v. 0 \<le> v \<and> q = p\<lparr>loanAmount := v\<rparr>"
  by (rule parse_currency_obtain [of t, where 'a = 'a]) (auto simp: handle_loan_amount_change_def)

lemma handle_interest_rate_change_Some:
  "handle_interest_rate_change p t = Some q \<Longrightarrow> \<exists>v. q = p\<lparr>interestRate := v\<rparr>"
  by (auto simp: handle_interest_rate_change_def split: js_number.splits)

lemma form_step_inv:
  assumes "form_inv p" "form_step p e = Some q"
  shows "form_inv q"
proof (cases e)
  case (LoanAmountText t)
  then show ?thesis using assms handle_loan_amount_change_Some [of p t q]
    by (auto simp: form_inv_def)
next
  case (InterestRateText t)
  then show ?thesis using assms handle_interest_rate_change_Some [of p t q]
    by (auto simp: form_inv_def)
qed (use assms adjust_term_years_bounds in \<open>auto simp: form_inv_def adjust_term_years_def\<close>)

lemma form_run_inv_aux:
  "form_inv p \<Longrightarrow> form_run p es = Some q \<Longrightarrow> form_inv q"
proof (induction es arbitrary: p)
  case (Cons e es)
  then show ?case using form_step_inv [of p e] by (auto split: option.splits)
qed simp

text \<open>
  C21: starting from parameters with a non-negative amount and a term in \<open>[1, 40]\<close>
  (every preset of \<open>App.tsx\<close> is such), any sequence of form events keeps the amount
  non-negative and the term in \<open>[1, 40]\<close>.
\<close>

theorem form_run_preserves_inv:
  assumes "form_inv p" "form_run p es = Some q"
  shows "form_inv q \<and> 0 \<le> loanAmount q \<and> 1 \<le> termYears q \<and> termYears q \<le> 40"
  using form_run_inv_aux [OF assms] by (simp add: form_inv_def)

theorem form_run_preserves_inv_witness:
  "form_inv \<lparr>loanAmount = 45000 :: rat, interestRate = 29/4, termYears = 1, paymentsPerYear = MONTHLY\<rparr> \<and>
   form_run \<lparr>loanAmount = 45000 :: rat, interestRate = 29/4, termYears = 1, paymentsPerYear = MONTHLY\<rparr>
     [TermMinus, PickFrequency WEEKLY, TermPlus] =
     Some \<lparr>loanAmount = 45000, interestRate = 29/4, termYears = 2, paymentsPerYear = WEEKLY\<rparr> \<and>
   1 \<le> termYears \<lparr>loanAmount = 45000 :: rat, interestRate = 29/4, termYears = 2, paymentsPerYear = WEEKLY\<rparr>"
proof -
  have h1: "form_inv \<lparr>loanAmount = 45000 :: rat, interestRate = 29/4, termYears = 1, paymentsPerYear = MONTHLY\<rparr>"
    by (simp add: form_inv_def)
  have h2: "form_run \<lparr>loanAmount = 45000 :: rat, interestRate = 29/4, termYears = 1, paymentsPerYear = MONTHLY\<rparr>
     [TermMinus, PickFrequency WEEKLY, TermPlus] =
     Some \<lparr>loanAmount = 45000, interestRate = 29/4, termYears = 2, paymentsPerYear = WEEKLY\<rparr>"
    by (simp add: adjust_term_years_def)
  show ?thesis using form_run_preserves_inv [OF h1 h2] h1 h2 by simp
qed

end
