(* ===== verification/LoanCalculatorSwift.thy ===== *)
theory LoanCalculatorSwift
  imports LoanCalculator
begin

text \<open>
  The SwiftUI app's engine, \<open>LoanCalculator.calculate(for:)\<close> in
  \<open>src/LoanCalculator/Models/LoanCalculator.swift\<close>. It uses the same \<open>LoanResult\<close> and
  \<open>AmortizationPayment\<close> shapes (the records of theory \<open>LoanCalculator\<close>) and differs
  from the TypeScript engine in two places: the payment count is rounded with
  \<open>rounded()\<close> (halves away from zero) rather than \<open>Math.round\<close>, and the loop runs over
  the closed range \<open>1...numberOfPayments\<close>, modelled as a \<open>fold\<close> over \<open>[1..n]\<close>.
  The main result is that both engines compute the same function.
\<close>

section \<open>Definitions\<close>

definition swift_number_of_payments :: "'a::floor_ceiling loan_parameters \<Rightarrow> int" where
  "swift_number_of_payments p =
     swift_rounded (termYears p * of_int (payment_frequency_value (paymentsPerYear p)))"

definition swift_level_payment :: "'a::field \<Rightarrow> 'a \<Rightarrow> int \<Rightarrow> 'a" where
  "swift_level_payment amount r n =
     (if r = 0 then amount / of_int n
      else (let factor = (1 + r) ^ nat n in amount * (r * factor) / (factor - 1)))"

text \<open>The body of \<open>for paymentNumber in 1...numberOfPayments\<close>.\<close>

definition swift_payment_step ::
  "int \<Rightarrow> 'a::linordered_field \<Rightarrow> 'a \<Rightarrow> int \<Rightarrow> 'a amortization_state \<Rightarrow> 'a amortization_state" where
  "swift_payment_step n r pay k st =
     (let bal = loop_balance st;
          interestPayment = bal * r;
          p0 = min (max (pay - interestPayment) 0) bal;
          principalPayment = (if k = n then bal else p0);
          actualPayment = principalPayment + max interestPayment 0;
          bal' = max (bal - principalPayment) 0
      in \<lparr>loop_balance = bal',
          loop_schedule = loop_schedule st @
            [\<lparr>paymentId = k, paymentNumber = k, paymentAmount = actualPayment,
              interestPaid = max interestPayment 0, principalPaid = principalPayment,
              remainingBalance = bal'\<rparr>],
          loop_interest = loop_interest st + max interestPayment 0,
          loop_paid = loop_paid st + actualPayment\<rparr>)"

definition swift_payment_loop ::
  "int \<Rightarrow> 'a::linordered_field \<Rightarrow> 'a \<Rightarrow> 'a amortization_state \<Rightarrow> 'a amortization_state" where
  "swift_payment_loop n r pay st = fold (swift_payment_step n r pay) [1..n] st"

definition swift_calculate :: "'a::floor_ceiling loan_parameters \<Rightarrow> 'a loan_result" where
  "swift_calculate p =
     (let amount = max (loanAmount p) 0;
          ppy = of_int (payment_frequency_value (paymentsPerYear p));
          n = swift_number_of_payments p
      in if \<not> 0 < n then zero_result
         else (let r = (interestRate p / 100) / ppy;
                   pay = swift_level_payment amount r n;
                   st = swift_payment_loop n r pay (initial_state amount)
               in \<lparr>periodicPayment = pay, totalInterest = loop_interest st,
                   totalPaid = loop_paid st, schedule = loop_schedule st\<rparr>))"

section \<open>The two engines agree\<close>

lemma swift_payment_step_eq: "swift_payment_step = payment_step"
  by (intro ext) (simp add: swift_payment_step_def payment_step_def principal_portion_def Let_def)

lemma swift_level_payment_eq: "swift_level_payment = level_payment"
  by (intro ext) (simp add: swift_level_payment_def level_payment_def)

lemma swift_number_of_payments_pos_iff:
  "0 < swift_number_of_payments p \<longleftrightarrow> 0 < number_of_payments p"
  by (simp add: swift_number_of_payments_def number_of_payments_def
      swift_rounded_pos_iff round_pos_iff)

lemma swift_number_of_payments_eq:
  "0 < number_of_payments p \<Longrightarrow> swift_number_of_payments p = number_of_payments p"
  by (simp add: swift_number_of_payments_def number_of_payments_def
      round_pos_iff swift_rounded_nonneg)

text \<open>The rules do differ: \<open>-2.5\<close> rounds to \<open>-2\<close> in JavaScript and to \<open>-3\<close> in Swift.\<close>

lemma rounding_rules_differ: "round (- 5 / 2 :: rat) = - 2 \<and> swift_rounded (- 5 / 2 :: rat) = - 3"
  by (simp add: round_def swift_rounded_def floor_eq_iff)

text \<open>
  The two engines agree, in each branch of the guard. With a positive count both run the
  same loop from the same state; otherwise both return the zero result, although the
  rounding rules may give different non-positive counts.
\<close>

lemma swift_calculate_pos:
  assumes "0 < number_of_payments p"
  shows "swift_calculate p = calculate p"
proof -
  have loop: "swift_payment_loop n r pay st = payment_loop n r pay 1 st" for n r pay
      and st :: "'a amortization_state"
    by (simp add: swift_payment_loop_def swift_payment_step_eq fold_upto_payment_loop)
  show ?thesis
    using assms swift_number_of_payments_eq [OF assms] swift_number_of_payments_pos_iff [of p]
    by (simp add: swift_calculate_def calculate_def Let_def loop swift_level_payment_eq
        rate_per_period_def)
qed

lemma swift_calculate_nonpos:
  assumes "\<not> 0 < number_of_payments p"
  shows "swift_calculate p = zero_result \<and> calculate p = zero_result"
  using assms swift_number_of_payments_pos_iff [of p]
  by (simp add: swift_calculate_def calculate_def Let_def)

text \<open>
  C9: the Swift engine \<open>calculate(for:)\<close> and the TypeScript engine
  \<open>LoanCalculator.calculate\<close> compute the same result on every input, although they round
  the payment count by different rules and run the loop in different forms.
\<close>

theorem swift_calculate_eq_calculate: "swift_calculate p = calculate p"
proof (cases "0 < number_of_payments p")
  case True
  then show ?thesis by (rule swift_calculate_pos)
next
  case False
  then show ?thesis using swift_calculate_nonpos [OF False] by simp
qed

end
