(* ===== verification/Tabs.thy ===== *)
theory Tabs
  imports InputForm LoanCalculatorSwift
begin

text \<open>
  The two apps' top level: three loan tabs, each showing a calculator screen seeded with a
  preset. React Native (\<open>src/App.tsx\<close>): the app state is the selected loan type, and
  one \<open>LoanCalculatorScreen\<close> is rendered with \<open>key={selectedLoanType}\<close>, so a change of
  tab remounts the screen and its \<open>useState(initialParameters)\<close> starts again from the
  preset; pressing the tab already selected sets the state to the value it has, which
  React ignores, and the screen keeps its parameters. SwiftUI
  (\<open>src/LoanCalculator/ContentView.swift\<close>): three \<open>@State\<close> parameter records, one per
  tab, each bound into its own \<open>LoanCalculatorView\<close>; switching the \<open>TabView\<close> changes
  only the visible tab. The Swift edits are modelled at the value the bound controls
  write: the number a \<open>NumberFormatter\<close> field commits (its text parsing is Foundation's
  and not modelled), the \<open>Stepper\<close> on \<open>1...40\<close>, and the segmented picker.
\<close>

section \<open>Presets\<close>

datatype loan_type = Residential | Commercial | Vehicle

record 'a loan_config =
  title :: string
  description :: string
  parameters :: "'a loan_parameters"

definition loan_configs :: "loan_type \<Rightarrow> 'a::field loan_config" where
  "loan_configs t =
     (case t of
        Residential \<Rightarrow> \<lparr>title = ''Residential Loan'',
          description = ''Calculate payments for a residential mortgage.'',
          parameters = create_default_loan_parameters 450000 (23/4) 30 MONTHLY\<rparr>
      | Commercial \<Rightarrow> \<lparr>title = ''Commercial Loan'',
          description = ''Estimate repayments on a commercial property loan.'',
          parameters = create_default_loan_parameters 750000 (13/2) 20 MONTHLY\<rparr>
      | Vehicle \<Rightarrow> \<lparr>title = ''Vehicle Loan'',
          description = ''Plan out payments on a vehicle purchase.'',
          parameters = create_default_loan_parameters 45000 (29/4) 6 MONTHLY\<rparr>)"

section \<open>React Native: App and LoanCalculatorScreen\<close>

text \<open>
  \<open>selectedLoanType\<close> is the state of \<open>App\<close>; \<open>screen_parameters\<close> is the state of the one
  mounted \<open>LoanCalculatorScreen\<close>.
\<close>

record 'a app_state =
  selectedLoanType :: loan_type
  screen_parameters :: "'a loan_parameters"

definition app_initial :: "'a::field app_state" where
  "app_initial = \<lparr>selectedLoanType = Residential,
                  screen_parameters = parameters (loan_configs Residential)\<rparr>"

text \<open>
  \<open>setSelectedLoanType(t)\<close> from a tab's \<open>onPress\<close>: the same value bails out of the
  update; a new value re-renders \<open>App\<close> and the new \<open>key\<close> remounts the screen.
\<close>

definition select_loan_type :: "loan_type \<Rightarrow> 'a::field app_state \<Rightarrow> 'a app_state" where
  "select_loan_type t s =
     (if t = selectedLoanType s then s
      else \<lparr>selectedLoanType = t, screen_parameters = parameters (loan_configs t)\<rparr>)"

datatype app_event = SelectTab loan_type | FormInput form_event

primrec app_step :: "'a::floor_ceiling app_state \<Rightarrow> app_event \<Rightarrow> 'a app_state option" where
  "app_step s (SelectTab t) = Some (select_loan_type t s)"
| "app_step s (FormInput e) =
     map_option (\<lambda>p. s\<lparr>screen_parameters := p\<rparr>) (form_step (screen_parameters s) e)"

fun app_run :: "'a::floor_ceiling app_state \<Rightarrow> app_event list \<Rightarrow> 'a app_state option" where
  "app_run s [] = Some s"
| "app_run s (e # es) = (case app_step s e of None \<Rightarrow> None | Some s' \<Rightarrow> app_run s' es)"

text \<open>What the screen renders: the config's title and \<open>LoanCalculator.calculate(parameters)\<close>.\<close>

definition screen_title :: "'a::field app_state \<Rightarrow> string" where
  "screen_title s = title (loan_configs (selectedLoanType s) :: 'a loan_config)"

definition screen_result :: "'a::floor_ceiling app_state \<Rightarrow> 'a loan_result" where
  "screen_result s = calculate (screen_parameters s)"

section \<open>SwiftUI: ContentView and LoanCalculatorView\<close>

record 'a swift_app_state =
  visibleTab :: loan_type
  residentialParameters :: "'a loan_parameters"
  commercialParameters :: "'a loan_parameters"
  vehicleParameters :: "'a loan_parameters"

definition swift_app_initial :: "'a::field swift_app_state" where
  "swift_app_initial =
     \<lparr>visibleTab = Residential,
      residentialParameters = \<lparr>loanAmount = 450000, interestRate = 23/4, termYears = 30,
                               paymentsPerYear = MONTHLY\<rparr>,
      commercialParameters = \<lparr>loanAmount = 750000, interestRate = 13/2, termYears = 20,
                              paymentsPerYear = MONTHLY\<rparr>,
      vehicleParameters = \<lparr>loanAmount = 45000, interestRate = 29/4, termYears = 6,
                           paymentsPerYear = MONTHLY\<rparr>\<rparr>"

text \<open>The binding each tab's view gets: \<open>$residentialParameters\<close> and so on.\<close>

definition tab_parameters :: "'a swift_app_state \<Rightarrow> loan_type \<Rightarrow> 'a loan_parameters" where
  "tab_parameters s t =
     (case t of Residential \<Rightarrow> residentialParameters s | Commercial \<Rightarrow> commercialParameters s
      | Vehicle \<Rightarrow> vehicleParameters s)"

definition set_tab_parameters ::
  "loan_type \<Rightarrow> 'a loan_parameters \<Rightarrow> 'a swift_app_state \<Rightarrow> 'a swift_app_state" where
  "set_tab_parameters t p s =
     (case t of Residential \<Rightarrow> s\<lparr>residentialParameters := p\<rparr>
      | Commercial \<Rightarrow> s\<lparr>commercialParameters := p\<rparr>
      | Vehicle \<Rightarrow> s\<lparr>vehicleParameters := p\<rparr>)"

text \<open>
  The controls of \<open>LoanCalculatorView\<close>: the two formatted text fields commit a number,
  the \<open>Stepper(value:in: 1...40, step: 1)\<close> adds or subtracts one and stops at the
  bounds, and the picker sets the frequency.
\<close>

datatype 'a swift_event =
  SwiftSelectTab loan_type | CommitAmount 'a | CommitRate 'a | StepperIncrement
  | StepperDecrement | SwiftPickFrequency payment_frequency

definition swift_edit ::
  "'a::linordered_field swift_event \<Rightarrow> 'a loan_parameters \<Rightarrow> 'a loan_parameters" where
  "swift_edit e p =
     (case e of
        CommitAmount v \<Rightarrow> p\<lparr>loanAmount := v\<rparr>
      | CommitRate v \<Rightarrow> p\<lparr>interestRate := v\<rparr>
      | StepperIncrement \<Rightarrow> p\<lparr>termYears := min (termYears p + 1) 40\<rparr>
      | StepperDecrement \<Rightarrow> p\<lparr>termYears := max (termYears p - 1) 1\<rparr>
      | SwiftPickFrequency f \<Rightarrow> p\<lparr>paymentsPerYear := f\<rparr>
      | SwiftSelectTab _ \<Rightarrow> p)"

definition swift_app_step ::
  "'a::linordered_field swift_app_state \<Rightarrow> 'a swift_event \<Rightarrow> 'a swift_app_state" where
  "swift_app_step s e =
     (case e of
        SwiftSelectTab t \<Rightarrow> s\<lparr>visibleTab := t\<rparr>
      | _ \<Rightarrow> set_tab_parameters (visibleTab s) (swift_edit e (tab_parameters s (visibleTab s))) s)"

definition swift_app_run ::
  "'a::linordered_field swift_app_state \<Rightarrow> 'a swift_event list \<Rightarrow> 'a swift_app_state" where
  "swift_app_run s es = fold (\<lambda>e s. swift_app_step s e) es s"

definition swift_screen_result :: "'a::floor_ceiling swift_app_state \<Rightarrow> 'a loan_result" where
  "swift_screen_result s = swift_calculate (tab_parameters s (visibleTab s))"

definition term_ok :: "'a::linordered_field loan_parameters \<Rightarrow> bool" where
  "term_ok p \<longleftrightarrow> 1 \<le> termYears p \<and> termYears p \<le> 40"

definition swift_tabs_inv :: "'a::linordered_field swift_app_state \<Rightarrow> bool" where
  "swift_tabs_inv s \<longleftrightarrow> list_all (\<lambda>t. term_ok (tab_parameters s t)) [Residential, Commercial, Vehicle]"

section \<open>Lemmas\<close>

lemma loan_configs_inv: "form_inv (parameters (loan_configs t) :: 'a::linordered_field loan_parameters)"
  by (cases t) (simp_all add: loan_configs_def create_default_loan_parameters_def form_inv_def)

lemma app_step_inv:
  assumes "form_inv (screen_parameters s)" "app_step s e = Some s'"
  shows "form_inv (screen_parameters s')"
proof (cases e)
  case (SelectTab t)
  then show ?thesis using assms loan_configs_inv [of t] by (auto simp: select_loan_type_def)
next
  case (FormInput fe)
  then show ?thesis using assms form_step_inv [of "screen_parameters s" fe] by auto
qed

lemma app_run_inv:
  "form_inv (screen_parameters s) \<Longrightarrow> app_run s es = Some s' \<Longrightarrow> form_inv (screen_parameters s')"
proof (induction es arbitrary: s)
  case (Cons e es)
  then show ?case using app_step_inv [of s e] by (auto split: option.splits)
qed simp

lemma payment_frequency_value_ge: "12 \<le> payment_frequency_value f"
  by (cases f) simp_all

lemma number_of_payments_ge:
  assumes "1 \<le> termYears (p :: 'a::floor_ceiling loan_parameters)"
  shows "12 \<le> number_of_payments p"
proof -
  have "(12 :: 'a) \<le> of_int (payment_frequency_value (paymentsPerYear p))"
    using payment_frequency_value_ge [of "paymentsPerYear p"] by simp
  then have "1 * 12 \<le> termYears p * of_int (payment_frequency_value (paymentsPerYear p))"
    using assms by (intro mult_mono) simp_all
  then show ?thesis by (simp add: number_of_payments_def round_def le_floor_iff)
qed

lemma length_schedule_calculate: "length (schedule (calculate p)) = nat (number_of_payments p)"
  using arg_cong [OF calculate_numbers [of p], of length] by simp

lemma tab_parameters_set [simp]:
  "tab_parameters (set_tab_parameters t p s) u = (if u = t then p else tab_parameters s u)"
  by (cases t; cases u) (simp_all add: tab_parameters_def set_tab_parameters_def)

lemma tab_parameters_visible [simp]: "tab_parameters (s\<lparr>visibleTab := t\<rparr>) u = tab_parameters s u"
  by (cases u) (simp_all add: tab_parameters_def)

lemma swift_edit_term_ok: "term_ok p \<Longrightarrow> term_ok (swift_edit e p)"
  by (cases e) (auto simp: swift_edit_def term_ok_def)

lemma swift_app_step_inv: "swift_tabs_inv s \<Longrightarrow> swift_tabs_inv (swift_app_step s e)"
proof -
  assume inv: "swift_tabs_inv s"
  have "term_ok (tab_parameters (swift_app_step s e) u)" for u
    using inv swift_edit_term_ok [of "tab_parameters s (visibleTab s)" e]
    by (cases u; cases "visibleTab s")
       (auto simp: swift_tabs_inv_def swift_app_step_def split: swift_event.split)
  then show ?thesis by (simp add: swift_tabs_inv_def)
qed

lemma swift_app_run_inv: "swift_tabs_inv s \<Longrightarrow> swift_tabs_inv (swift_app_run s es)"
  by (induction es arbitrary: s) (simp_all add: swift_app_run_def swift_app_step_inv)

section \<open>Tab behaviour\<close>

text \<open>
  C22: in the React Native app, switching to another tab shows that tab's preset, and
  switching back shows the first tab's preset again: the edits made on a tab are lost
  when the user leaves it. Pressing the tab that is already selected changes nothing:
  the screen stays mounted and keeps the edited parameters.
\<close>

theorem tab_switch_resets_screen:
  assumes "t \<noteq> selectedLoanType s"
  shows "app_run s [SelectTab t] =
           Some \<lparr>selectedLoanType = t, screen_parameters = parameters (loan_configs t)\<rparr> \<and>
         app_run s [SelectTab t, SelectTab (selectedLoanType s)] =
           Some \<lparr>selectedLoanType = selectedLoanType s,
                 screen_parameters = parameters (loan_configs (selectedLoanType s))\<rparr> \<and>
         app_run s [SelectTab (selectedLoanType s)] = Some s"
  using assms by (simp add: select_loan_type_def)

theorem tab_switch_resets_screen_witness:
  "Vehicle \<noteq> selectedLoanType \<lparr>selectedLoanType = Residential, screen_parameters = \<lparr>loanAmount = 450000 :: rat, interestRate = 23/4, termYears = 29, paymentsPerYear = MONTHLY\<rparr>\<rparr> \<and>
   app_run \<lparr>selectedLoanType = Residential, screen_parameters = \<lparr>loanAmount = 450000 :: rat, interestRate = 23/4, termYears = 29, paymentsPerYear = MONTHLY\<rparr>\<rparr> [SelectTab Vehicle, SelectTab Residential] = Some app_initial"
  using tab_switch_resets_screen [of Vehicle "\<lparr>selectedLoanType = Residential, screen_parameters = \<lparr>loanAmount = 450000 :: rat, interestRate = 23/4, termYears = 29, paymentsPerYear = MONTHLY\<rparr>\<rparr>"] by (simp add: app_initial_def select_loan_type_def)

text \<open>
  C24: in the SwiftUI app the tabs are isolated. An edit changes the parameters of the
  visible tab only: the bindings of the other two tabs are untouched. Switching tabs
  changes no tab's parameters, and switching away and back restores the state exactly.
\<close>

theorem swift_edit_confined_to_tab:
  assumes "u \<noteq> visibleTab s"
  shows "tab_parameters (swift_app_step s e) u = tab_parameters s u \<and>
         tab_parameters (swift_app_step s (SwiftSelectTab t)) u' = tab_parameters s u' \<and>
         swift_app_run s [SwiftSelectTab t, SwiftSelectTab (visibleTab s)] = s"
  using assms by (simp add: swift_app_step_def swift_app_run_def split: swift_event.split)

theorem swift_edit_confined_to_tab_witness:
  "Vehicle \<noteq> visibleTab (swift_app_initial :: rat swift_app_state) \<and>
   tab_parameters (swift_app_step (swift_app_initial :: rat swift_app_state) StepperDecrement) Vehicle =
     \<lparr>loanAmount = 45000, interestRate = 29/4, termYears = 6, paymentsPerYear = MONTHLY\<rparr>"
proof -
  have h: "Vehicle \<noteq> visibleTab (swift_app_initial :: rat swift_app_state)"
    by (simp add: swift_app_initial_def)
  show ?thesis using h swift_edit_confined_to_tab [OF h, of StepperDecrement]
    by (simp add: swift_app_initial_def tab_parameters_def)
qed

text \<open>
  C25: every screen the React Native app can reach from its initial state shows a
  non-negative amount, a term in \<open>[1, 40]\<close> and a schedule of at least 12 payments.
\<close>

theorem reachable_screen_ok:
  assumes "app_run (app_initial :: 'a::floor_ceiling app_state) es = Some s"
  shows "0 \<le> loanAmount (screen_parameters s) \<and> 1 \<le> termYears (screen_parameters s) \<and>
         termYears (screen_parameters s) \<le> 40 \<and> 12 \<le> length (schedule (screen_result s))"
proof -
  have "form_inv (screen_parameters (app_initial :: 'a app_state))"
    using loan_configs_inv by (simp add: app_initial_def)
  then have inv: "form_inv (screen_parameters s)" using app_run_inv assms by blast
  then have "12 \<le> number_of_payments (screen_parameters s)"
    by (intro number_of_payments_ge) (simp add: form_inv_def)
  then show ?thesis
    using inv by (simp add: form_inv_def screen_result_def length_schedule_calculate)
qed

theorem reachable_screen_ok_witness:
  "app_run (app_initial :: rat app_state) [SelectTab Vehicle, FormInput TermMinus] =
     Some \<lparr>selectedLoanType = Vehicle, screen_parameters =
       \<lparr>loanAmount = 45000, interestRate = 29/4, termYears = 5, paymentsPerYear = MONTHLY\<rparr>\<rparr> \<and>
   12 \<le> length (schedule (screen_result \<lparr>selectedLoanType = Vehicle, screen_parameters =
       \<lparr>loanAmount = 45000 :: rat, interestRate = 29/4, termYears = 5, paymentsPerYear = MONTHLY\<rparr>\<rparr>))"
proof -
  have h: "app_run (app_initial :: rat app_state) [SelectTab Vehicle, FormInput TermMinus] =
     Some \<lparr>selectedLoanType = Vehicle, screen_parameters =
       \<lparr>loanAmount = 45000, interestRate = 29/4, termYears = 5, paymentsPerYear = MONTHLY\<rparr>\<rparr>"
    by (simp add: app_initial_def select_loan_type_def loan_configs_def
        create_default_loan_parameters_def adjust_term_years_def)
  show ?thesis using h reachable_screen_ok [OF h] by simp
qed

text \<open>
  C26: every state the SwiftUI app can reach keeps each tab's term in \<open>[1, 40]\<close>; the
  amount, by contrast, is whatever number the text field commits.
\<close>

theorem swift_reachable_terms_ok:
  "list_all (\<lambda>t. 1 \<le> termYears (tab_parameters (swift_app_run (swift_app_initial :: 'a::linordered_field swift_app_state) es) t) \<and>
                  termYears (tab_parameters (swift_app_run swift_app_initial es) t) \<le> 40)
     [Residential, Commercial, Vehicle] \<and>
   loanAmount (tab_parameters (swift_app_run (swift_app_initial :: 'a swift_app_state) [CommitAmount (-1)]) Residential) = -1"
proof -
  have "swift_tabs_inv (swift_app_initial :: 'a swift_app_state)"
    by (simp add: swift_tabs_inv_def swift_app_initial_def tab_parameters_def term_ok_def)
  then have "swift_tabs_inv (swift_app_run (swift_app_initial :: 'a swift_app_state) es)"
    by (rule swift_app_run_inv)
  then show ?thesis
    by (simp add: swift_tabs_inv_def term_ok_def swift_app_run_def swift_app_step_def
        swift_edit_def swift_app_initial_def tab_parameters_def set_tab_parameters_def)
qed

end
