(* ===== verification/LoanViews.thy ===== *)
theory LoanViews
  imports LoanCalculator
begin

text \<open>
  What the result views derive from a \<open>LoanResult\<close> before rendering it:
  \<open>src/src/components/LoanResults.tsx\<close> (React Native: \<open>interestShare\<close>, the progress
  bar width, \<open>firstPayments\<close>, \<open>finalPayment\<close> and the conditions under which the two
  payment sections are shown) and \<open>src/LoanCalculator/Views/LoanBreakdownView.swift\<close>
  (SwiftUI: the same three values, and the value and total handed to \<open>ProgressView\<close>).
  Layout, styles and the toggle state of the collapsible sections are not modelled.
\<close>

section \<open>React Native: LoanResults\<close>

text \<open>
  \<open>result.totalPaid > 0 ? result.totalInterest / result.totalPaid : 0\<close>, with the
  division of doubles (\<open>None\<close> for a non-finite quotient).
\<close>

definition interest_share :: "'a::linordered_field loan_result \<Rightarrow> 'a option" where
  "interest_share r = (if 0 < totalPaid r then ieee_div (totalInterest r) (totalPaid r) else Some 0)"

text \<open>The width of the filled part of the bar, in percent: \<open>interestShare * 100\<close>.\<close>

definition progress_fill_width :: "'a::linordered_field loan_result \<Rightarrow> 'a option" where
  "progress_fill_width r = map_option (\<lambda>s. s * 100) (interest_share r)"

text \<open>\<open>schedule.slice(0, 3)\<close>.\<close>

definition first_payments :: "'a loan_result \<Rightarrow> 'a amortization_payment list" where
  "first_payments r = take 3 (schedule r)"

text \<open>
  \<open>schedule[schedule.length - 1]\<close>: on an empty schedule the index is \<open>-1\<close> and the
  read gives \<open>undefined\<close>, here \<open>None\<close>.
\<close>

definition final_payment :: "'a loan_result \<Rightarrow> 'a amortization_payment option" where
  "final_payment r = (if schedule r = [] then None else Some (last (schedule r)))"

text \<open>The sections rendered: \<open>firstPayments.length > 0 &&\<close> and \<open>finalPayment &&\<close>.\<close>

definition shows_first_payments :: "'a loan_result \<Rightarrow> bool" where
  "shows_first_payments r \<longleftrightarrow> 0 < length (first_payments r)"

definition shows_final_payment :: "'a loan_result \<Rightarrow> bool" where
  "shows_final_payment r \<longleftrightarrow> final_payment r \<noteq> None"

section \<open>SwiftUI: LoanBreakdownView\<close>

text \<open>\<open>guard result.totalPaid > 0 else { return 0 }\<close>, then the division of doubles.\<close>

definition swift_interest_share :: "'a::linordered_field loan_result \<Rightarrow> 'a option" where
  "swift_interest_share r =
     (if \<not> 0 < totalPaid r then Some 0 else ieee_div (totalInterest r) (totalPaid r))"

definition swift_first_payments :: "'a loan_result \<Rightarrow> 'a amortization_payment list" where
  "swift_first_payments r = take 3 (schedule r)"

text \<open>\<open>result.schedule.last\<close>.\<close>

definition swift_final_payment :: "'a loan_result \<Rightarrow> 'a amortization_payment option" where
  "swift_final_payment r = (case schedule r of [] \<Rightarrow> None | _ \<Rightarrow> Some (last (schedule r)))"

definition total_paid_for_progress :: "'a::linordered_field loan_result \<Rightarrow> 'a" where
  "total_paid_for_progress r = max (totalPaid r) 1"

definition interest_progress :: "'a::linordered_field loan_result \<Rightarrow> 'a" where
  "interest_progress r = min (totalInterest r) (total_paid_for_progress r)"

text \<open>\<open>totalPrincipal\<close>: the row labelled "Principal" shows the raw parameter.\<close>

definition total_principal :: "'a loan_parameters \<Rightarrow> 'a" where
  "total_principal p = loanAmount p"

section \<open>Properties of the views on a calculated result\<close>

lemma swift_final_payment_eq: "swift_final_payment r = final_payment r"
  by (simp add: swift_final_payment_def final_payment_def split: list.split)

lemma interest_share_value:
  "interest_share r = Some (if 0 < totalPaid r then totalInterest r / totalPaid r else 0)"
  by (simp add: interest_share_def)

lemma share_bounds:
  fixes i t :: "'a::linordered_field"
  assumes "0 \<le> i" "i \<le> t"
  shows "0 \<le> (if 0 < t then i / t else 0) \<and> (if 0 < t then i / t else 0) \<le> 1"
  using assms by (simp add: divide_le_eq_1)

text \<open>
  C14: both apps compute a finite interest share, the same one, and it lies in
  \<open>[0, 1]\<close>, so the React Native bar is filled between 0% and 100% of its width. Each
  app guards its division by \<open>totalPaid > 0\<close>; without the guard the zero result of
  the early return would give \<open>0 / 0 = NaN\<close>.
\<close>

theorem interest_share_in_unit_interval:
  "\<exists>s. interest_share (calculate p) = Some s \<and> swift_interest_share (calculate p) = Some s \<and>
       0 \<le> s \<and> s \<le> 1 \<and> progress_fill_width (calculate p) = Some (s * 100)"
proof -
  let ?s = "if 0 < totalPaid (calculate p) then totalInterest (calculate p) / totalPaid (calculate p) else 0"
  have "0 \<le> ?s \<and> ?s \<le> 1"
    using share_bounds calculate_interest_bounds [of p] by blast
  moreover have "interest_share (calculate p) = Some ?s \<and> swift_interest_share (calculate p) = Some ?s"
    by (simp add: interest_share_def swift_interest_share_def)
  ultimately show ?thesis by (simp add: progress_fill_width_def)
qed

text \<open>
  C15: the "Final Payment" section is shown exactly when there is at least one payment,
  and it shows payment number \<open>n\<close> with a zero balance; Swift's \<open>schedule.last\<close> gives
  the same row.
\<close>

theorem final_payment_view:
  "(case final_payment (calculate p) of
      None \<Rightarrow> number_of_payments p \<le> 0
    | Some row \<Rightarrow> paymentNumber row = number_of_payments p \<and> remainingBalance row = 0) \<and>
   (shows_final_payment (calculate p) \<longleftrightarrow> 0 < number_of_payments p) \<and>
   swift_final_payment (calculate p) = final_payment (calculate p)"
proof (cases "schedule (calculate p) = []")
  case True
  then have "map paymentNumber (schedule (calculate p)) = []" by simp
  then have "number_of_payments p \<le> 0" by (simp add: calculate_numbers)
  with True show ?thesis
    by (simp add: final_payment_def shows_final_payment_def swift_final_payment_def)
next
  case False
  then show ?thesis
    using calculate_last_row [OF False] calculate_schedule_nonempty [OF False]
    by (simp add: final_payment_def shows_final_payment_def swift_final_payment_def
        split: list.split)
qed

text \<open>
  C16: the "First Payments" section lists payments \<open>1 .. min 3 n\<close> and is shown exactly
  when there is at least one payment; the Swift prefix is the same list.
\<close>

theorem first_payments_view:
  "map paymentNumber (first_payments (calculate p)) = [1..min 3 (number_of_payments p)] \<and>
   (shows_first_payments (calculate p) \<longleftrightarrow> 0 < number_of_payments p) \<and>
   swift_first_payments (calculate p) = first_payments (calculate p)"
proof -
  have nums: "map paymentNumber (first_payments (calculate p)) = [1..min 3 (number_of_payments p)]"
    by (simp add: first_payments_def take_map [symmetric] calculate_numbers take_upto min.commute)
  have "length (first_payments (calculate p)) = length [1..min 3 (number_of_payments p)]"
    using arg_cong [OF nums, of length] by simp
  then have "shows_first_payments (calculate p) \<longleftrightarrow> 0 < number_of_payments p"
    by (simp add: shows_first_payments_def)
  with nums show ?thesis by (simp add: swift_first_payments_def first_payments_def)
qed

end
