(* ===== verification/ResultsView.thy ===== *)
theory ResultsView
  imports LoanViews Formatters
begin

text \<open>
  What the result screens render, on top of the derived values of theory \<open>LoanViews\<close>.
  React Native, \<open>src/src/components/LoanResults.tsx\<close>: the component's own state is two
  toggles (\<open>showFirstPayments\<close>, \<open>showFinalPayment\<close>, both \<open>useState(false)\<close>) flipped by
  the section headers; the view is the three metric texts, the progress label, and the
  two sections, each absent, collapsed or expanded into \<open>PaymentRow\<close>s. SwiftUI,
  \<open>LoanMetricsSummary.swift\<close> and \<open>LoanBreakdownView.swift\<close>: the values handed to
  Foundation's currency formatting, which is not modelled.
\<close>

section \<open>React Native: texts\<close>

text \<open>A JavaScript integer in a template or JSX text: its decimal digits, with a minus sign.\<close>

definition int_to_js_string :: "int \<Rightarrow> string" where
  "int_to_js_string i = (if i < 0 then ''-'' else []) @ nat_digits (nat \<bar>i\<bar>)"

text \<open>\<open>PaymentRow\<close>: the title and the three amounts (the labels are constants).\<close>

definition payment_row_text :: "'a::floor_ceiling amortization_payment \<Rightarrow> string list" where
  "payment_row_text payment =
     [''Payment #'' @ int_to_js_string (paymentNumber payment),
      format_currency (principalPaid payment),
      format_currency (interestPaid payment),
      format_currency (remainingBalance payment)]"

definition metric_texts :: "'a::floor_ceiling loan_result \<Rightarrow> string list" where
  "metric_texts result =
     [format_currency (periodicPayment result), format_currency (totalInterest result),
      format_currency (totalPaid result)]"

text \<open>
  \<open>{(interestShare * 100).toFixed(1)}% Interest\<close>; \<open>None\<close> where the text is not
  modelled: a non-finite share, or a number beyond the range of \<open>to_fixed\<close>.
\<close>

definition progress_label :: "'a::floor_ceiling loan_result \<Rightarrow> string option" where
  "progress_label result =
     (case interest_share result of
        None \<Rightarrow> None
      | Some s \<Rightarrow> map_option (\<lambda>t. t @ ''% Interest'') (to_fixed 1 (s * 100)))"

section \<open>React Native: the toggles and the view\<close>

record results_toggles =
  showFirstPayments :: bool
  showFinalPayment :: bool

definition results_initial :: results_toggles where
  "results_initial = \<lparr>showFirstPayments = False, showFinalPayment = False\<rparr>"

datatype results_event = PressFirstPayments | PressFinalPayment

text \<open>
  \<open>onPress={() => setShowFirstPayments(!showFirstPayments)}\<close> and its twin. A header is
  only rendered with its section, so a press on an absent section cannot happen; it is
  a no-op here.
\<close>

primrec results_press :: "'a loan_result \<Rightarrow> results_event \<Rightarrow> results_toggles \<Rightarrow> results_toggles" where
  "results_press result PressFirstPayments st =
     (if shows_first_payments result then st\<lparr>showFirstPayments := \<not> showFirstPayments st\<rparr> else st)"
| "results_press result PressFinalPayment st =
     (if shows_final_payment result then st\<lparr>showFinalPayment := \<not> showFinalPayment st\<rparr> else st)"

datatype section_view = Collapsed | Expanded "string list list"

record results_view =
  metrics :: "string list"
  progress_text :: "string option"
  first_section :: "section_view option"
  final_section :: "section_view option"

definition render_results :: "'a::floor_ceiling loan_result \<Rightarrow> results_toggles \<Rightarrow> results_view" where
  "render_results result st =
     \<lparr>metrics = metric_texts result,
      progress_text = progress_label result,
      first_section =
        (if shows_first_payments result
         then Some (if showFirstPayments st
                    then Expanded (map payment_row_text (first_payments result)) else Collapsed)
         else None),
      final_section =
        (case final_payment result of
           None \<Rightarrow> None
         | Some payment \<Rightarrow>
             Some (if showFinalPayment st then Expanded [payment_row_text payment] else Collapsed))\<rparr>"

section \<open>SwiftUI: the values the views format\<close>

text \<open>\<open>LoanMetricsSummary\<close>: payment, total interest, total paid.\<close>

definition swift_metrics_values :: "'a loan_result \<Rightarrow> 'a list" where
  "swift_metrics_values result = [periodicPayment result, totalInterest result, totalPaid result]"

text \<open>The three \<open>LabeledContent\<close> rows of \<open>LoanBreakdownView\<close>: principal, interest, total paid.\<close>

definition swift_breakdown_values :: "'a loan_parameters \<Rightarrow> 'a loan_result \<Rightarrow> 'a list" where
  "swift_breakdown_values parameters result =
     [total_principal parameters, totalInterest result, totalPaid result]"

text \<open>The Swift \<open>PaymentRow\<close>: the number in its title and the three amounts.\<close>

definition swift_payment_row_values :: "'a amortization_payment \<Rightarrow> int \<times> 'a list" where
  "swift_payment_row_values payment =
     (paymentNumber payment, [principalPaid payment, interestPaid payment, remainingBalance payment])"

section \<open>Properties of the rendered results\<close>

lemma results_press_twice: "results_press r e (results_press r e st) = st"
  by (cases e) simp_all

lemma schedule_nonempty_pos: "0 < number_of_payments p \<Longrightarrow> schedule (calculate p) \<noteq> []"
  using calculate_numbers [of p] by auto

lemma progress_label_defined: "progress_label (calculate p) \<noteq> None"
proof -
  let ?s = "if 0 < totalPaid (calculate p) then totalInterest (calculate p) / totalPaid (calculate p) else 0"
  have "0 \<le> ?s \<and> ?s \<le> 1"
    using share_bounds calculate_interest_bounds [of p] by blast
  then have "\<bar>?s * 100\<bar> < 10 ^ 21" by simp
  then show ?thesis by (simp add: progress_label_def to_fixed_def interest_share_value)
qed

lemma metric_texts_swift: "metric_texts r = map format_currency (swift_metrics_values r)"
  by (simp add: metric_texts_def swift_metrics_values_def)

text \<open>
  C29: with at least one payment, pressing the "Final Payment" header of a freshly
  mounted \<open>LoanResults\<close> expands that section into one \<open>PaymentRow\<close>, titled
  \<open>Payment #n\<close> and showing the balance \<open>$0.00\<close>, while "First Payments" stays collapsed
  and the progress label is defined; the Swift \<open>PaymentRow\<close> of the same row shows
  number \<open>n\<close> and a zero balance.
\<close>

theorem final_section_view:
  assumes "0 < number_of_payments p"
  shows "final_section (render_results (calculate p) (results_press (calculate p) PressFinalPayment results_initial)) =
           Some (Expanded [payment_row_text (last (schedule (calculate p)))]) \<and>
         payment_row_text (last (schedule (calculate p))) ! 0 = ''Payment #'' @ int_to_js_string (number_of_payments p) \<and>
         payment_row_text (last (schedule (calculate p))) ! 3 = ''$0.00'' \<and>
         first_section (render_results (calculate p) (results_press (calculate p) PressFinalPayment results_initial)) =
           Some Collapsed \<and>
         progress_text (render_results (calculate p) (results_press (calculate p) PressFinalPayment results_initial)) \<noteq> None \<and>
         swift_payment_row_values (last (schedule (calculate p))) =
           (number_of_payments p, [principalPaid (last (schedule (calculate p))),
                                   interestPaid (last (schedule (calculate p))), 0])"
proof -
  have ne: "schedule (calculate p) \<noteq> []" using assms by (rule schedule_nonempty_pos)
  have first: "shows_first_payments (calculate p)"
    using ne by (simp add: shows_first_payments_def first_payments_def)
  have final: "final_payment (calculate p) = Some (last (schedule (calculate p)))"
    using ne by (simp add: final_payment_def)
  show ?thesis
    using calculate_last_row [OF ne] progress_label_defined [of p] first final
    by (simp add: render_results_def results_initial_def shows_final_payment_def
        payment_row_text_def format_currency_zero swift_payment_row_values_def)
qed

theorem final_section_view_witness:
  "0 < number_of_payments \<lparr>loanAmount = 1000 :: rat, interestRate = 12, termYears = 1/6,
                            paymentsPerYear = MONTHLY\<rparr> \<and>
   payment_row_text (last (schedule (calculate \<lparr>loanAmount = 1000 :: rat, interestRate = 12,
                            termYears = 1/6, paymentsPerYear = MONTHLY\<rparr>))) ! 3 = ''$0.00''"
proof -
  have h: "0 < number_of_payments \<lparr>loanAmount = 1000 :: rat, interestRate = 12, termYears = 1/6,
                            paymentsPerYear = MONTHLY\<rparr>"
    by (simp add: number_of_payments_def round_def)
  show ?thesis using h final_section_view [OF h] by simp
qed

end
