(* ===== verification/Screens.thy ===== *)
theory Screens
  imports Tabs ResultsView
begin

text \<open>
  The React Native screen as a whole. \<open>LoanCalculatorScreen.tsx\<close> gets its props from
  \<open>App.tsx\<close> (\<open>title\<close>, \<open>description\<close>, \<open>initialParameters\<close> of the current config) and
  renders a header, the \<open>LoanInputForm\<close> and \<open>LoanResults\<close>. The state of the whole
  tree is the app state of theory \<open>Tabs\<close> and the two toggles of \<open>LoanResults\<close>. A tab
  switch remounts the screen with its children, so the toggles start again collapsed;
  form edits re-render \<open>LoanResults\<close> in place, so they keep their value.
\<close>

section \<open>What LoanInputForm renders\<close>

text \<open>
  \<open>String(x)\<close> (and a number in JSX text) for an integral \<open>x\<close> below \<open>10^21\<close>: its
  decimal digits. Other numbers print as the shortest round-tripping decimal, which the
  exact model does not produce: \<open>None\<close>.
\<close>

definition js_number_text :: "'a::floor_ceiling \<Rightarrow> string option" where
  "js_number_text x =
     (if x = of_int \<lfloor>x\<rfloor> \<and> \<bar>x\<bar> < 10 ^ 21 then Some (int_to_js_string \<lfloor>x\<rfloor>) else None)"

record form_view =
  amount_text :: string
  rate_text :: "string option"
  term_label :: "string option"
  stepper_text :: "string option"
  picker_items :: "(string \<times> payment_frequency) list"
  picker_selected :: payment_frequency

definition render_form :: "'a::floor_ceiling loan_parameters \<Rightarrow> form_view" where
  "render_form p =
     \<lparr>amount_text = amount_field_text p,
      rate_text = rate_field_text p,
      term_label = map_option (\<lambda>s. ''Term: '' @ s @ '' years'') (js_number_text (termYears p)),
      stepper_text = js_number_text (termYears p),
      picker_items = map (\<lambda>f. (get_payment_frequency_label f, f)) get_all_payment_frequencies,
      picker_selected = paymentsPerYear p\<rparr>"

section \<open>The screen's props\<close>

record 'a screen_props =
  screenTitle :: string
  screenDescription :: string
  initialParameters :: "'a loan_parameters"

definition screen_props_of :: "loan_type \<Rightarrow> 'a::field screen_props" where
  "screen_props_of t =
     \<lparr>screenTitle = title (loan_configs t :: 'a loan_config),
      screenDescription = description (loan_configs t :: 'a loan_config),
      initialParameters = parameters (loan_configs t)\<rparr>"

section \<open>The state of the whole tree\<close>

record 'a screen_state =
  screenApp :: "'a app_state"
  resultsToggles :: results_toggles

definition screen_initial :: "'a::field screen_state" where
  "screen_initial = \<lparr>screenApp = app_initial, resultsToggles = results_initial\<rparr>"

datatype screen_event = AppInput app_event | ResultsInput results_event

definition screen_step :: "'a::floor_ceiling screen_state \<Rightarrow> screen_event \<Rightarrow> 'a screen_state option" where
  "screen_step s e =
     (case e of
        AppInput (SelectTab t) \<Rightarrow>
          Some \<lparr>screenApp = select_loan_type t (screenApp s),
                resultsToggles = (if t = selectedLoanType (screenApp s) then resultsToggles s
                                  else results_initial)\<rparr>
      | AppInput (FormInput fe) \<Rightarrow>
          map_option (\<lambda>a. s\<lparr>screenApp := a\<rparr>) (app_step (screenApp s) (FormInput fe))
      | ResultsInput re \<Rightarrow>
          Some (s\<lparr>resultsToggles := results_press (screen_result (screenApp s)) re (resultsToggles s)\<rparr>))"

fun screen_run :: "'a::floor_ceiling screen_state \<Rightarrow> screen_event list \<Rightarrow> 'a screen_state option" where
  "screen_run s [] = Some s"
| "screen_run s (e # es) = (case screen_step s e of None \<Rightarrow> None | Some s' \<Rightarrow> screen_run s' es)"

text \<open>The invariant of the tree: the form's invariant, and a whole-number term.\<close>

definition screen_inv :: "'a::floor_ceiling screen_state \<Rightarrow> bool" where
  "screen_inv s \<longleftrightarrow>
     form_inv (screen_parameters (screenApp s)) \<and>
     termYears (screen_parameters (screenApp s)) = of_int \<lfloor>termYears (screen_parameters (screenApp s))\<rfloor>"

section \<open>What the screen renders\<close>

record screen_view =
  tab_bar :: "(loan_type \<times> bool) list"
  header :: "string \<times> string"
  form :: form_view
  results_area :: results_view

definition render_screen :: "'a::floor_ceiling screen_state \<Rightarrow> screen_view" where
  "render_screen s =
     (let a = screenApp s; props = (screen_props_of (selectedLoanType a) :: 'a screen_props)
      in \<lparr>tab_bar = map (\<lambda>t. (t, t = selectedLoanType a)) [Residential, Commercial, Vehicle],
          header = (screenTitle props, screenDescription props),
          form = render_form (screen_parameters a),
          results_area = render_results (screen_result a) (resultsToggles s)\<rparr>)"

section \<open>Properties\<close>

lemma screen_step_app:
  "map_option screenApp (screen_step s e) =
     (case e of AppInput a \<Rightarrow> app_step (screenApp s) a | ResultsInput _ \<Rightarrow> Some (screenApp s))"
  by (auto simp: screen_step_def option.map_comp comp_def split: screen_event.split app_event.split)

lemma whole_iff: "((x :: 'a::floor_ceiling) = of_int \<lfloor>x\<rfloor>) \<longleftrightarrow> x \<in> \<int>"
proof
  assume "x = of_int \<lfloor>x\<rfloor>"
  then show "x \<in> \<int>" by (metis Ints_of_int)
qed (auto elim: Ints_cases)

lemma whole_min_max:
  assumes "(x :: 'a::linordered_idom) \<in> \<int>"
  shows "max 1 (min 40 (x + 1)) \<in> \<int> \<and> max 1 (min 40 (x + - 1)) \<in> \<int>"
  using assms by (auto simp: min_def max_def)

lemma form_step_whole:
  assumes "termYears p \<in> \<int>" "form_step (p :: 'a::floor_ceiling loan_parameters) e = Some q"
  shows "termYears q \<in> \<int>"
proof (cases e)
  case (LoanAmountText t)
  then show ?thesis using assms handle_loan_amount_change_Some [of p t q] by auto
next
  case (InterestRateText t)
  then show ?thesis using assms handle_interest_rate_change_Some [of p t q] by auto
qed (use assms whole_min_max [of "termYears p"] in \<open>auto simp: adjust_term_years_def\<close>)

lemma loan_configs_whole: "termYears (parameters (loan_configs t) :: 'a::floor_ceiling loan_parameters) \<in> \<int>"
  by (cases t) (simp_all add: loan_configs_def create_default_loan_parameters_def)

lemma screen_step_inv:
  assumes "screen_inv s" "screen_step s e = Some s'"
  shows "screen_inv s'"
proof -
  have "map_option screenApp (Some s') = (case e of AppInput a \<Rightarrow> app_step (screenApp s) a | ResultsInput _ \<Rightarrow> Some (screenApp s))"
    using screen_step_app [of s e] assms(2) by simp
  then show ?thesis
  proof (cases e)
    case (AppInput a)
    show ?thesis
    proof (cases a)
      case (SelectTab t)
      then show ?thesis using assms \<open>map_option screenApp (Some s') = _\<close> AppInput
          app_step_inv [of "screenApp s" a "screenApp s'"] loan_configs_whole [of t, where 'a = 'a]
        by (auto simp: screen_inv_def whole_iff select_loan_type_def)
    next
      case (FormInput fe)
      then have "map_option (\<lambda>p. (screenApp s)\<lparr>screen_parameters := p\<rparr>)
                   (form_step (screen_parameters (screenApp s)) fe) = Some (screenApp s')"
        using \<open>map_option screenApp (Some s') = _\<close> AppInput by simp
      then obtain q where q: "form_step (screen_parameters (screenApp s)) fe = Some q"
          "screenApp s' = (screenApp s)\<lparr>screen_parameters := q\<rparr>"
        by (auto simp: map_option_eq_Some)
      then show ?thesis using assms(1) form_step_inv [OF _ q(1)]
          form_step_whole [OF _ q(1)] by (simp add: screen_inv_def whole_iff)
    qed
  next
    case (ResultsInput r)
    then show ?thesis using assms \<open>map_option screenApp (Some s') = _\<close> by (simp add: screen_inv_def whole_iff)
  qed
qed

lemma screen_run_inv: "screen_inv s \<Longrightarrow> screen_run s es = Some s' \<Longrightarrow> screen_inv s'"
proof (induction es arbitrary: s)
  case (Cons e es)
  then show ?case using screen_step_inv [of s e] by (auto split: option.splits)
qed simp

lemma js_number_text_whole:
  assumes "(x :: 'a::floor_ceiling) \<in> \<int>" "\<bar>x\<bar> < 10 ^ 21"
  shows "js_number_text x = Some (int_to_js_string \<lfloor>x\<rfloor>)"
  using assms by (auto simp: js_number_text_def elim: Ints_cases)

text \<open>
  C23: every screen the React Native app can reach renders a whole-number term between
  1 and 40 in the term label and the stepper (the label is never the fallback of a
  fractional term), lists the three frequencies with their labels in the picker,
  highlights exactly one tab, and shows the "First Payments" section.
\<close>

theorem reachable_screen_renders:
  assumes "screen_run (screen_initial :: 'a::floor_ceiling screen_state) es = Some s"
  shows "(\<exists>k. 1 \<le> k \<and> k \<le> 40 \<and>
            term_label (form (render_screen s)) = Some (''Term: '' @ int_to_js_string k @ '' years'') \<and>
            stepper_text (form (render_screen s)) = Some (int_to_js_string k)) \<and>
         picker_items (form (render_screen s)) =
           [(''Monthly'', MONTHLY), (''Bi-Weekly'', BI_WEEKLY), (''Weekly'', WEEKLY)] \<and>
         length (filter snd (tab_bar (render_screen s))) = 1 \<and>
         first_section (results_area (render_screen s)) \<noteq> None"
proof -
  have "screen_inv (screen_initial :: 'a screen_state)"
    using loan_configs_inv [of Residential, where 'a = 'a] loan_configs_whole [of Residential, where 'a = 'a]
    by (simp add: screen_inv_def whole_iff screen_initial_def app_initial_def)
  then have inv: "screen_inv s" using screen_run_inv assms by blast
  let ?t = "termYears (screen_parameters (screenApp s))"
  have t: "?t \<in> \<int>" "1 \<le> ?t" "?t \<le> 40" using inv by (simp_all add: screen_inv_def whole_iff form_inv_def)
  then have tx: "js_number_text ?t = Some (int_to_js_string \<lfloor>?t\<rfloor>)"
    by (intro js_number_text_whole) simp_all
  have k: "1 \<le> \<lfloor>?t\<rfloor> \<and> \<lfloor>?t\<rfloor> \<le> 40" using t by (simp add: le_floor_iff floor_le_iff)
  have "12 \<le> number_of_payments (screen_parameters (screenApp s))"
    using t(2) by (rule number_of_payments_ge)
  then have "shows_first_payments (screen_result (screenApp s))"
    by (simp add: shows_first_payments_def first_payments_def screen_result_def length_schedule_calculate)
  moreover have "length (filter snd (tab_bar (render_screen s))) = 1"
    by (cases "selectedLoanType (screenApp s)") (simp_all add: render_screen_def Let_def)
  ultimately have rest: "picker_items (form (render_screen s)) =
           [(''Monthly'', MONTHLY), (''Bi-Weekly'', BI_WEEKLY), (''Weekly'', WEEKLY)] \<and>
         length (filter snd (tab_bar (render_screen s))) = 1 \<and>
         first_section (results_area (render_screen s)) \<noteq> None"
    by (simp add: render_screen_def Let_def render_form_def render_results_def
        get_all_payment_frequencies_def)
  have "term_label (form (render_screen s)) = Some (''Term: '' @ int_to_js_string \<lfloor>?t\<rfloor> @ '' years'') \<and>
        stepper_text (form (render_screen s)) = Some (int_to_js_string \<lfloor>?t\<rfloor>)"
    using tx by (simp add: render_screen_def Let_def render_form_def)
  with k rest show ?thesis by blast
qed

theorem reachable_screen_renders_witness:
  "screen_run (screen_initial :: rat screen_state) [AppInput (SelectTab Vehicle), AppInput (FormInput TermMinus)] =
     Some \<lparr>screenApp = \<lparr>selectedLoanType = Vehicle, screen_parameters = \<lparr>loanAmount = 45000 :: rat, interestRate = 29/4, termYears = 5, paymentsPerYear = MONTHLY\<rparr>\<rparr>, resultsToggles = results_initial\<rparr> \<and>
   length (filter snd (tab_bar (render_screen \<lparr>screenApp = \<lparr>selectedLoanType = Vehicle, screen_parameters = \<lparr>loanAmount = 45000 :: rat, interestRate = 29/4, termYears = 5, paymentsPerYear = MONTHLY\<rparr>\<rparr>, resultsToggles = results_initial\<rparr>))) = 1"
proof -
  have h: "screen_run (screen_initial :: rat screen_state) [AppInput (SelectTab Vehicle), AppInput (FormInput TermMinus)] =
     Some \<lparr>screenApp = \<lparr>selectedLoanType = Vehicle, screen_parameters = \<lparr>loanAmount = 45000 :: rat, interestRate = 29/4, termYears = 5, paymentsPerYear = MONTHLY\<rparr>\<rparr>, resultsToggles = results_initial\<rparr>"
    by (simp add: screen_initial_def app_initial_def screen_step_def select_loan_type_def
        loan_configs_def create_default_loan_parameters_def adjust_term_years_def)
  show ?thesis using h reachable_screen_renders [OF h] by simp
qed

end
