(* ===== verification/Scenarios.thy ===== *)
theory Scenarios
  imports Tabs
begin

text \<open>
  The scenarios of the specification, evaluated at the presets of \<open>App.tsx\<close> and
  \<open>ContentView.swift\<close>. The annuity factor \<open>(1 + r)^n\<close> of a 360-payment loan is a
  rational number with thousands of digits, too large to compute by rewriting. It is
  bounded instead: \<open>x^8\<close> is computed exactly, and each further squaring or product
  keeps a lower and an upper bound with 16 decimals (\<open>mul_bounds\<close>). The level payment
  \<open>c F / (F - 1)\<close> decreases in \<open>F\<close> (\<open>annuity_factor_bounds\<close>), so the payment lies
  between the values at the two bounds.
\<close>

lemma mul_bounds:
  fixes y z :: "'a::linordered_field"
  assumes "0 \<le> a" "0 \<le> c" "l \<le> a * c" "b * d \<le> u"
    and "a \<le> y \<and> y \<le> b" "c \<le> z \<and> z \<le> d"
  shows "l \<le> y * z \<and> y * z \<le> u"
proof
  have "a * c \<le> y * z" using assms by (intro mult_mono) auto
  then show "l \<le> y * z" using assms(3) by simp
  have "y * z \<le> b * d" using assms by (intro mult_mono) auto
  then show "y * z \<le> u" using assms(4) by simp
qed

lemma residential_factor_chain:
  fixes x :: "'a::linordered_field"
  assumes "5194912066365379 / 5000000000000000 \<le> x ^ 8" "x ^ 8 \<le> 10389824132730759 / 10000000000000000"
  shows "5589446925423031 / 1000000000000000 \<le> x ^ 360 \<and> x ^ 360 \<le> 6986808656778847 / 1250000000000000"
proof -
  have p8: "5194912066365379 / 5000000000000000 \<le> x ^ 8 \<and> x ^ 8 \<le> 10389824132730759 / 10000000000000000" using assms by simp
  have p16: "2698711137726861 / 2500000000000000 \<le> x ^ 16 \<and> x ^ 16 \<le> 10794844550907447 / 10000000000000000"
    using mul_bounds [of "5194912066365379 / 5000000000000000" "5194912066365379 / 5000000000000000" "2698711137726861 / 2500000000000000" "10389824132730759 / 10000000000000000" "10389824132730759 / 10000000000000000" "10794844550907447 / 10000000000000000", OF _ _ _ _ p8 p8]
    by (simp add: power_add [symmetric])
  have p32: "11652866887825613 / 10000000000000000 \<le> x ^ 32 \<and> x ^ 32 \<le> 11652866887825621 / 10000000000000000"
    using mul_bounds [of "2698711137726861 / 2500000000000000" "2698711137726861 / 2500000000000000" "11652866887825613 / 10000000000000000" "10794844550907447 / 10000000000000000" "10794844550907447 / 10000000000000000" "11652866887825621 / 10000000000000000", OF _ _ _ _ p16 p16]
    by (simp add: power_add [symmetric])
  have p64: "6789465335269129 / 5000000000000000 \<le> x ^ 64 \<and> x ^ 64 \<le> 6789465335269139 / 5000000000000000"
    using mul_bounds [of "11652866887825613 / 10000000000000000" "11652866887825613 / 10000000000000000" "6789465335269129 / 5000000000000000" "11652866887825621 / 10000000000000000" "11652866887825621 / 10000000000000000" "6789465335269139 / 5000000000000000", OF _ _ _ _ p32 p32]
    by (simp add: power_add [symmetric])
  have p128: "9219367907764229 / 5000000000000000 \<le> x ^ 128 \<and> x ^ 128 \<le> 18438735815528513 / 10000000000000000"
    using mul_bounds [of "6789465335269129 / 5000000000000000" "6789465335269129 / 5000000000000000" "9219367907764229 / 5000000000000000" "6789465335269139 / 5000000000000000" "6789465335269139 / 5000000000000000" "18438735815528513 / 10000000000000000", OF _ _ _ _ p64 p64]
    by (simp add: power_add [symmetric])
  have p256: "3399869784748519 / 1000000000000000 \<le> x ^ 256 \<and> x ^ 256 \<le> 16999348923742697 / 5000000000000000"
    using mul_bounds [of "9219367907764229 / 5000000000000000" "9219367907764229 / 5000000000000000" "3399869784748519 / 1000000000000000" "18438735815528513 / 10000000000000000" "18438735815528513 / 10000000000000000" "16999348923742697 / 5000000000000000", OF _ _ _ _ p128 p128]
    by (simp add: power_add [symmetric])
  have p320: "46166596095957969 / 10000000000000000 \<le> x ^ 320 \<and> x ^ 320 \<le> 11541649023989579 / 2500000000000000"
    using mul_bounds [of "3399869784748519 / 1000000000000000" "6789465335269129 / 5000000000000000" "46166596095957969 / 10000000000000000" "16999348923742697 / 5000000000000000" "6789465335269139 / 5000000000000000" "11541649023989579 / 2500000000000000", OF _ _ _ _ p256 p64]
    by (simp add: power_add [symmetric])
  have p352: "53797319897020783 / 10000000000000000 \<le> x ^ 352 \<and> x ^ 352 \<le> 2151892795880849 / 400000000000000"
    using mul_bounds [of "46166596095957969 / 10000000000000000" "11652866887825613 / 10000000000000000" "53797319897020783 / 10000000000000000" "11541649023989579 / 2500000000000000" "11652866887825621 / 10000000000000000" "2151892795880849 / 400000000000000", OF _ _ _ _ p320 p32]
    by (simp add: power_add [symmetric])
  have p360: "5589446925423031 / 1000000000000000 \<le> x ^ 360 \<and> x ^ 360 \<le> 6986808656778847 / 1250000000000000"
    using mul_bounds [of "53797319897020783 / 10000000000000000" "5194912066365379 / 5000000000000000" "5589446925423031 / 1000000000000000" "2151892795880849 / 400000000000000" "10389824132730759 / 10000000000000000" "6986808656778847 / 1250000000000000", OF _ _ _ _ p352 p8]
    by (simp add: power_add [symmetric])
  show ?thesis using p360 .
qed

lemma vehicle_factor_chain:
  fixes x :: "'a::linordered_field"
  assumes "5246839127085093 / 5000000000000000 \<le> x ^ 8" "x ^ 8 \<le> 10493678254170187 / 10000000000000000"
  shows "7714711719006331 / 5000000000000000 \<le> x ^ 72 \<and> x ^ 72 \<le> 15429423438012683 / 10000000000000000"
proof -
  have p8: "5246839127085093 / 5000000000000000 \<le> x ^ 8 \<and> x ^ 8 \<le> 10493678254170187 / 10000000000000000" using assms by simp
  have p16: "1376466041275553 / 1250000000000000 \<le> x ^ 16 \<and> x ^ 16 \<le> 11011728330204427 / 10000000000000000"
    using mul_bounds [of "5246839127085093 / 5000000000000000" "5246839127085093 / 5000000000000000" "1376466041275553 / 1250000000000000" "10493678254170187 / 10000000000000000" "10493678254170187 / 10000000000000000" "11011728330204427 / 10000000000000000", OF _ _ _ _ p8 p8]
    by (simp add: power_add [symmetric])
  have p32: "12125816081822671 / 10000000000000000 \<le> x ^ 32 \<and> x ^ 32 \<le> 6062908040911339 / 5000000000000000"
    using mul_bounds [of "1376466041275553 / 1250000000000000" "1376466041275553 / 1250000000000000" "12125816081822671 / 10000000000000000" "11011728330204427 / 10000000000000000" "11011728330204427 / 10000000000000000" "6062908040911339 / 5000000000000000", OF _ _ _ _ p16 p16]
    by (simp add: power_add [symmetric])
  have p64: "14703541565018931 / 10000000000000000 \<le> x ^ 64 \<and> x ^ 64 \<le> 14703541565018949 / 10000000000000000"
    using mul_bounds [of "12125816081822671 / 10000000000000000" "12125816081822671 / 10000000000000000" "14703541565018931 / 10000000000000000" "6062908040911339 / 5000000000000000" "6062908040911339 / 5000000000000000" "14703541565018949 / 10000000000000000", OF _ _ _ _ p32 p32]
    by (simp add: power_add [symmetric])
  have p72: "7714711719006331 / 5000000000000000 \<le> x ^ 72 \<and> x ^ 72 \<le> 15429423438012683 / 10000000000000000"
    using mul_bounds [of "14703541565018931 / 10000000000000000" "5246839127085093 / 5000000000000000" "7714711719006331 / 5000000000000000" "14703541565018949 / 10000000000000000" "10493678254170187 / 10000000000000000" "15429423438012683 / 10000000000000000", OF _ _ _ _ p64 p8]
    by (simp add: power_add [symmetric])
  show ?thesis using p72 .
qed

lemma annuity_factor_bounds:
  fixes F :: "'a::linordered_field"
  assumes "1 < Fl" "Fl \<le> F" "F \<le> Fu" "0 < c"
    and "lo < c * Fu / (Fu - 1)" "c * Fl / (Fl - 1) < hi"
  shows "lo < c * F / (F - 1) \<and> c * F / (F - 1) < hi"
proof -
  have eq: "c * G / (G - 1) = c + c / (G - 1)" if "1 < G" for G :: 'a
    using that by (simp add: field_simps)
  have "c / (Fu - 1) \<le> c / (F - 1)" "c / (F - 1) \<le> c / (Fl - 1)"
    using assms by (auto intro!: divide_left_mono mult_pos_pos)
  then show ?thesis using assms eq [of Fu] eq [of F] eq [of Fl] by simp
qed

lemma level_payment_factor:
  "r \<noteq> 0 \<Longrightarrow> level_payment a r n = (a * r) * (1 + r) ^ nat n / ((1 + r) ^ nat n - 1)"
  by (simp add: level_payment_def Let_def mult.assoc)

lemma preset_periodic_payment:
  assumes "0 < number_of_payments p"
  shows "periodicPayment (calculate p) =
           level_payment (max (loanAmount p) 0) (rate_per_period p) (number_of_payments p)"
proof -
  obtain st where
      "loop_inv (number_of_payments p) (max (loanAmount p) 0) (number_of_payments p + 1) st"
      and eq: "calculate p =
      \<lparr>periodicPayment = level_payment (max (loanAmount p) 0) (rate_per_period p) (number_of_payments p),
       totalInterest = loop_interest st, totalPaid = loop_paid st, schedule = loop_schedule st\<rparr>"
    by (rule calculate_loop [OF assms])
  show ?thesis by (subst eq) (rule loan_result.select_convs(1))
qed

lemma preset_payment_bounds:
  fixes p :: "'a::floor_ceiling loan_parameters"
  assumes "Fl \<le> (1 + r) ^ nat n \<and> (1 + r) ^ nat n \<le> Fu"
    and "number_of_payments p = n" "rate_per_period p = r" "max (loanAmount p) 0 = a"
    and "0 < n" "r \<noteq> 0" "1 < Fl" "0 < a * r"
    and "lo < a * r * Fu / (Fu - 1)" "a * r * Fl / (Fl - 1) < hi"
  shows "lo < periodicPayment (calculate p) \<and> periodicPayment (calculate p) < hi"
proof -
  have "periodicPayment (calculate p) = a * r * (1 + r) ^ nat n / ((1 + r) ^ nat n - 1)"
    using preset_periodic_payment [of p] level_payment_factor [of r a n] assms(2-6) by simp
  then show ?thesis using annuity_factor_bounds [of Fl "(1 + r) ^ nat n" Fu "a * r" lo hi] assms
    by simp
qed

lemma residential_payment:
  "262607 / 100 < periodicPayment (calculate (parameters (loan_configs Residential) :: 'a::floor_ceiling loan_parameters)) \<and>
   periodicPayment (calculate (parameters (loan_configs Residential) :: 'a::floor_ceiling loan_parameters)) < 262609 / 100"
proof (rule preset_payment_bounds [where a = 450000 and r = "23 / 4800" and n = 360])
  have "5194912066365379 / 5000000000000000 \<le> (1 + 23 / 4800 :: 'a) ^ 8" "(1 + 23 / 4800 :: 'a) ^ 8 \<le> 10389824132730759 / 10000000000000000"
    by (simp_all add: power_divide)
  then have "5589446925423031 / 1000000000000000 \<le> (1 + 23 / 4800 :: 'a) ^ 360 \<and> (1 + 23 / 4800 :: 'a) ^ 360 \<le> 6986808656778847 / 1250000000000000"
    by (rule residential_factor_chain)
  then show "5589446925423031 / 1000000000000000 \<le> (1 + 23 / 4800 :: 'a) ^ nat 360 \<and> (1 + 23 / 4800 :: 'a) ^ nat 360 \<le> 6986808656778847 / 1250000000000000"
    by (simp only: nat_numeral)
qed (simp_all add: loan_configs_def create_default_loan_parameters_def number_of_payments_def
       rate_per_period_def)

lemma vehicle_payment:
  "77261 / 100 < periodicPayment (calculate (parameters (loan_configs Vehicle) :: 'a::floor_ceiling loan_parameters)) \<and>
   periodicPayment (calculate (parameters (loan_configs Vehicle) :: 'a::floor_ceiling loan_parameters)) < 77263 / 100"
proof (rule preset_payment_bounds [where a = 45000 and r = "29 / 4800" and n = 72])
  have "5246839127085093 / 5000000000000000 \<le> (1 + 29 / 4800 :: 'a) ^ 8" "(1 + 29 / 4800 :: 'a) ^ 8 \<le> 10493678254170187 / 10000000000000000"
    by (simp_all add: power_divide)
  then have "7714711719006331 / 5000000000000000 \<le> (1 + 29 / 4800 :: 'a) ^ 72 \<and> (1 + 29 / 4800 :: 'a) ^ 72 \<le> 15429423438012683 / 10000000000000000"
    by (rule vehicle_factor_chain)
  then show "7714711719006331 / 5000000000000000 \<le> (1 + 29 / 4800 :: 'a) ^ nat 72 \<and> (1 + 29 / 4800 :: 'a) ^ nat 72 \<le> 15429423438012683 / 10000000000000000"
    by (simp only: nat_numeral)
qed (simp_all add: loan_configs_def create_default_loan_parameters_def number_of_payments_def
       rate_per_period_def)

text \<open>
  C27: the two apps start every tab from the same preset, and the presets give the
  schedule lengths the specification's scenarios state: 360 payments for the
  residential loan, 240 for the commercial one and 72 for the vehicle loan. The level
  payments are 2626.08 (residential) and 772.62 (vehicle) to the cent, not the 2626.69
  and 766.87 the specification's scenarios give.
\<close>

theorem presets_agree:
  "parameters (loan_configs t) = tab_parameters (swift_app_initial :: 'a::floor_ceiling swift_app_state) t \<and>
   length (schedule (calculate (parameters (loan_configs Residential) :: 'a loan_parameters))) = 360 \<and>
   length (schedule (calculate (parameters (loan_configs Commercial) :: 'a loan_parameters))) = 240 \<and>
   length (schedule (calculate (parameters (loan_configs Vehicle) :: 'a loan_parameters))) = 72 \<and>
   \<bar>periodicPayment (calculate (parameters (loan_configs Residential) :: 'a loan_parameters)) - 262608 / 100\<bar> < 1 / 100 \<and>
   \<bar>periodicPayment (calculate (parameters (loan_configs Vehicle) :: 'a loan_parameters)) - 77262 / 100\<bar> < 1 / 100 \<and>
   periodicPayment (calculate (parameters (loan_configs Residential) :: 'a loan_parameters)) \<noteq> 262669 / 100 \<and>
   periodicPayment (calculate (parameters (loan_configs Vehicle) :: 'a loan_parameters)) \<noteq> 76687 / 100"
proof -
  have lengths: "parameters (loan_configs t) = tab_parameters (swift_app_initial :: 'a swift_app_state) t \<and>
   length (schedule (calculate (parameters (loan_configs Residential) :: 'a loan_parameters))) = 360 \<and>
   length (schedule (calculate (parameters (loan_configs Commercial) :: 'a loan_parameters))) = 240 \<and>
   length (schedule (calculate (parameters (loan_configs Vehicle) :: 'a loan_parameters))) = 72"
    by (cases t) (simp_all add: loan_configs_def create_default_loan_parameters_def
        swift_app_initial_def tab_parameters_def length_schedule_calculate number_of_payments_def)
  have res: "\<bar>periodicPayment (calculate (parameters (loan_configs Residential) :: 'a loan_parameters)) - 262608 / 100\<bar> < 1 / 100"
    unfolding abs_less_iff using residential_payment [where 'a = 'a] by linarith
  have veh: "\<bar>periodicPayment (calculate (parameters (loan_configs Vehicle) :: 'a loan_parameters)) - 77262 / 100\<bar> < 1 / 100"
    unfolding abs_less_iff using vehicle_payment [where 'a = 'a] by linarith
  have "periodicPayment (calculate (parameters (loan_configs Residential) :: 'a loan_parameters)) \<noteq> 262669 / 100"
    using residential_payment [where 'a = 'a] by linarith
  moreover have "periodicPayment (calculate (parameters (loan_configs Vehicle) :: 'a loan_parameters)) \<noteq> 76687 / 100"
    using vehicle_payment [where 'a = 'a] by linarith
  ultimately show ?thesis using lengths res veh by blast
qed

end
