(* ===== verification/SwiftScreens.thy ===== *)
theory SwiftScreens
  imports Screens
begin

text \<open>
  What the SwiftUI app renders, next to theory \<open>Screens\<close> for React Native.
  \<open>src/LoanCalculator/Utilities/Formatters.swift\<close> configures the two
  \<open>NumberFormatter\<close>s the text fields use. \<open>LoanCalculatorView.swift\<close> shows the overview
  (\<open>LoanMetricsSummary\<close>), the controls and the breakdown (\<open>LoanBreakdownView\<close>). The
  amounts are formatted by Foundation with the currency code of the current locale,
  or \<open>"USD"\<close> when the locale has none. Foundation's formatting itself is not modelled:
  the view is the values it is given and the configuration it uses.
\<close>

section \<open>Formatter configuration\<close>

datatype number_style = CurrencyStyle | DecimalStyle

record number_formatter =
  numberStyle :: number_style
  maximumFractionDigits :: nat
  usesGroupingSeparator :: bool

definition currency_formatter :: number_formatter where
  "currency_formatter =
     \<lparr>numberStyle = CurrencyStyle, maximumFractionDigits = 2, usesGroupingSeparator = True\<rparr>"

definition percent_formatter :: number_formatter where
  "percent_formatter =
     \<lparr>numberStyle = DecimalStyle, maximumFractionDigits = 3, usesGroupingSeparator = True\<rparr>"

text \<open>\<open>Locale.current.currency?.identifier ?? "USD"\<close>.\<close>

definition currency_code :: "string option \<Rightarrow> string" where
  "currency_code locale_currency = (case locale_currency of Some c \<Rightarrow> c | None \<Rightarrow> ''USD'')"

section \<open>The term label\<close>

text \<open>
  \<open>Text("Term: \(termYears, specifier: "%.0f") years")\<close>: C's \<open>%.0f\<close> rounds to the
  nearest integer with ties to even, and keeps the sign of a negative value that rounds
  to zero.
\<close>

definition round_half_even :: "'a::floor_ceiling \<Rightarrow> int" where
  "round_half_even x =
     (let f = \<lfloor>x\<rfloor>; d = x - of_int f
      in if d < 1/2 then f else if 1/2 < d then f + 1 else if even f then f else f + 1)"

definition printf_0f :: "'a::floor_ceiling \<Rightarrow> string" where
  "printf_0f x = (if x < 0 then ''-'' else []) @ nat_digits (nat (round_half_even \<bar>x\<bar>))"

definition swift_term_label :: "'a::floor_ceiling loan_parameters \<Rightarrow> string" where
  "swift_term_label p = ''Term: '' @ printf_0f (termYears p) @ '' years''"

section \<open>LoanCalculatorView\<close>

text \<open>The title and footer each tab of \<open>ContentView\<close> passes to its view.\<close>

definition swift_tab_text :: "loan_type \<Rightarrow> string \<times> string" where
  "swift_tab_text t =
     (case t of
        Residential \<Rightarrow> (''Residential Loan'', ''Calculate payments for a residential mortgage.'')
      | Commercial \<Rightarrow> (''Commercial Loan'', ''Estimate repayments on a commercial property loan.'')
      | Vehicle \<Rightarrow> (''Vehicle Loan'', ''Plan out payments on a vehicle purchase.''))"

record 'a swift_view =
  navigationTitle :: string
  overviewFooter :: string
  overviewValues :: "'a list"
  amountField :: "'a \<times> number_formatter"
  rateField :: "'a \<times> number_formatter"
  termText :: string
  pickerOptions :: "(string \<times> payment_frequency) list"
  pickerSelection :: payment_frequency
  breakdownValues :: "'a list"
  firstRows :: "(int \<times> 'a list) list option"
  finalRow :: "(int \<times> 'a list) option"
  currencyCode :: string

text \<open>
  The body of \<open>LoanCalculatorView\<close>, with \<open>LoanMetricsSummary\<close> and \<open>LoanBreakdownView\<close>
  inlined. A \<open>DisclosureGroup\<close> is only built when its \<open>if\<close> holds.
\<close>

definition render_swift_view ::
  "string \<times> string \<Rightarrow> string option \<Rightarrow> 'a::floor_ceiling loan_parameters \<Rightarrow> 'a swift_view" where
  "render_swift_view texts locale_currency p =
     (let result = swift_calculate p
      in \<lparr>navigationTitle = fst texts, overviewFooter = snd texts,
          overviewValues = swift_metrics_values result,
          amountField = (loanAmount p, currency_formatter),
          rateField = (interestRate p, percent_formatter),
          termText = swift_term_label p,
          pickerOptions = map (\<lambda>f. (swift_frequency_label f, f)) swift_all_cases,
          pickerSelection = paymentsPerYear p,
          breakdownValues = swift_breakdown_values p result,
          firstRows = (if swift_first_payments result = [] then None
                       else Some (map swift_payment_row_values (swift_first_payments result))),
          finalRow = map_option swift_payment_row_values (swift_final_payment result),
          currencyCode = currency_code locale_currency\<rparr>)"


text \<open>How React Native shows a Swift \<open>PaymentRow\<close>'s values: the title, then three amounts.\<close>

definition row_texts_of_values :: "int \<times> 'a::floor_ceiling list \<Rightarrow> string list" where
  "row_texts_of_values row = (''Payment #'' @ int_to_js_string (fst row)) # map format_currency (snd row)"


section \<open>Properties of the SwiftUI rendering\<close>


lemma round_half_even_of_int [simp]: "round_half_even (of_int k :: 'a::floor_ceiling) = k"
  by (simp add: round_half_even_def Let_def)

lemma printf_0f_of_int: "printf_0f (of_int k :: 'a::floor_ceiling) = int_to_js_string k"
proof -
  have "round_half_even \<bar>of_int k :: 'a\<bar> = \<bar>k\<bar>"
    by (metis of_int_abs round_half_even_of_int)
  then show ?thesis by (simp add: printf_0f_def int_to_js_string_def)
qed

lemma printf_0f_whole: "(x :: 'a::floor_ceiling) \<in> \<int> \<Longrightarrow> printf_0f x = int_to_js_string \<lfloor>x\<rfloor>"
  by (auto elim: Ints_cases simp: printf_0f_of_int)

lemma swift_frequency_label_eq: "swift_frequency_label f = get_payment_frequency_label f"
  by (cases f) simp_all

lemma payment_row_text_values: "payment_row_text row = row_texts_of_values (swift_payment_row_values row)"
  by (simp add: payment_row_text_def row_texts_of_values_def swift_payment_row_values_def)

lemma swift_calculate_calculate: "swift_calculate p = calculate p"
  using swift_calculate_pos [of p] swift_calculate_nonpos [of p] by (cases "0 < number_of_payments p") auto

text \<open>
  C28: for parameters with a whole term below \<open>10^21\<close> years, the SwiftUI
  \<open>LoanCalculatorView\<close> and the React Native screen show the same thing: the same term
  label, the same frequency options in the same order, the metric texts React Native
  prints for the values SwiftUI formats, and the same first-payments and final-payment
  sections (present for the same results, and row by row the same numbers), whatever
  the section toggles, tab texts and locale currency.
\<close>

theorem platforms_render_alike:
  fixes p :: "'a::floor_ceiling loan_parameters"
  assumes "termYears p = of_int \<lfloor>termYears p\<rfloor>" "\<bar>termYears p\<bar> < 10 ^ 21"
  shows "term_label (render_form p) = Some (termText (render_swift_view texts loc p)) \<and>
         picker_items (render_form p) = pickerOptions (render_swift_view texts loc p) \<and>
         metric_texts (calculate p) = map format_currency (overviewValues (render_swift_view texts loc p)) \<and>
         first_section (render_results (calculate p) st) =
           map_option (\<lambda>rows. if showFirstPayments st then Expanded (map row_texts_of_values rows) else Collapsed)
             (firstRows (render_swift_view texts loc p)) \<and>
         final_section (render_results (calculate p) st) =
           map_option (\<lambda>row. if showFinalPayment st then Expanded [row_texts_of_values row] else Collapsed)
             (finalRow (render_swift_view texts loc p))"
proof -
  have w: "termYears p \<in> \<int>" using assms(1) by (metis Ints_of_int)
  have lab: "term_label (render_form p) = Some (termText (render_swift_view texts loc p))"
    using assms w by (simp add: render_form_def render_swift_view_def js_number_text_def
        swift_term_label_def printf_0f_whole Let_def)
  have picker: "picker_items (render_form p) = pickerOptions (render_swift_view texts loc p)"
    by (simp add: render_form_def render_swift_view_def Let_def swift_frequency_label_eq
        get_all_payment_frequencies_def swift_all_cases_def)
  have metrics: "metric_texts (calculate p) = map format_currency (overviewValues (render_swift_view texts loc p))"
    by (simp add: render_swift_view_def Let_def swift_calculate_calculate metric_texts_swift)
  have first: "first_section (render_results (calculate p) st) =
           map_option (\<lambda>rows. if showFirstPayments st then Expanded (map row_texts_of_values rows) else Collapsed)
             (firstRows (render_swift_view texts loc p))"
    by (simp add: render_results_def render_swift_view_def Let_def swift_calculate_calculate
        shows_first_payments_def swift_first_payments_def first_payments_def payment_row_text_values)
  have final: "final_section (render_results (calculate p) st) =
           map_option (\<lambda>row. if showFinalPayment st then Expanded [row_texts_of_values row] else Collapsed)
             (finalRow (render_swift_view texts loc p))"
    by (simp add: render_results_def render_swift_view_def Let_def swift_calculate_calculate
        swift_final_payment_eq payment_row_text_values split: option.split)
  show ?thesis using lab picker metrics first final by blast
qed

theorem platforms_render_alike_witness:
  "termYears \<lparr>loanAmount = 300000 :: rat, interestRate = 6, termYears = 30, paymentsPerYear = MONTHLY\<rparr> =
     of_int \<lfloor>termYears \<lparr>loanAmount = 300000 :: rat, interestRate = 6, termYears = 30,
                               paymentsPerYear = MONTHLY\<rparr>\<rfloor> \<and>
   \<bar>termYears \<lparr>loanAmount = 300000 :: rat, interestRate = 6, termYears = 30, paymentsPerYear = MONTHLY\<rparr>\<bar>
     < 10 ^ 21 \<and>
   term_label (render_form \<lparr>loanAmount = 300000 :: rat, interestRate = 6, termYears = 30,
                             paymentsPerYear = MONTHLY\<rparr>) =
     Some (termText (render_swift_view (swift_tab_text Residential) None
             \<lparr>loanAmount = 300000 :: rat, interestRate = 6, termYears = 30, paymentsPerYear = MONTHLY\<rparr>))"
proof -
  have h1: "termYears \<lparr>loanAmount = 300000 :: rat, interestRate = 6, termYears = 30, paymentsPerYear = MONTHLY\<rparr> =
     of_int \<lfloor>termYears \<lparr>loanAmount = 300000 :: rat, interestRate = 6, termYears = 30,
                               paymentsPerYear = MONTHLY\<rparr>\<rfloor>" by simp
  have h2: "\<bar>termYears \<lparr>loanAmount = 300000 :: rat, interestRate = 6, termYears = 30, paymentsPerYear = MONTHLY\<rparr>\<bar>
     < 10 ^ 21" by simp
  show ?thesis using h1 h2 platforms_render_alike [OF h1 h2] by blast
qed






end
