(* ===== verification/Spec2Isabelle.thy ===== *)
theory Spec2Isabelle
  imports Annuity Screens Scenarios SwiftScreens
begin

text \<open>
  \<^bold>\<open>Verification of the loan-amortization calculator.\<close>

  \<^bold>\<open>The program.\<close> The repository holds two apps that share one computation. The React
  Native app (\<open>src/App.tsx\<close>, \<open>src/src/\<close>, \<open>src/mobile/src/\<close>) and the SwiftUI app
  (\<open>src/LoanCalculator/\<close>) each let the user choose a loan type (three presets), edit a
  \<open>LoanParameters\<close> value (amount, annual rate in percent, term in years, payment
  frequency), and show the \<open>LoanResult\<close> that \<open>LoanCalculator.calculate\<close> returns for it:
  the level payment, the totals and an amortization schedule. The screens recompute
  the result from the parameters on every render. The engine is a pure function,
  written twice (\<open>src/src/models/LoanCalculator.ts\<close> and
  \<open>src/LoanCalculator/Models/LoanCalculator.swift\<close>). The views
  (\<open>src/src/components/LoanResults.tsx\<close>,
  \<open>src/LoanCalculator/Views/LoanBreakdownView.swift\<close>) derive a few values from the
  result before rendering it.

  \<^bold>\<open>The theories.\<close>
  \<^item> \<open>Prelude\<close>: the collection \<open>clamp_simps\<close>, lemmas on the clamp
    \<open>min (max x 0) b\<close>, non-increasing lists (\<open>non_increasing\<close>), integer ranges
    (\<open>take_upto\<close>, \<open>last_upto\<close>), JavaScript's \<open>Math.round\<close> (the library's \<open>round\<close>,
    \<open>\<lfloor>x + 1/2\<rfloor>\<close>) and Swift's \<open>rounded()\<close> (\<open>swift_rounded\<close>, halves away from zero),
    and the division of doubles \<open>ieee_div\<close>, \<open>None\<close> for a zero divisor, where IEEE-754
    gives \<open>Infinity\<close> or \<open>NaN\<close> and HOL's \<open>/\<close> gives 0.
  \<^item> \<open>LoanParameters\<close>: \<open>payment_frequency\<close> with its enum values 12/26/52, the record
    \<open>loan_parameters\<close>, \<open>create_default_loan_parameters\<close>, the TypeScript and Swift labels
    and the lists of all frequencies (\<open>LoanParameters.ts\<close>, \<open>LoanParameters.swift\<close>).
    \<open>payment_frequency\<close> is an instance of \<open>enum\<close> (declaration order) and \<open>linorder\<close>
    (by payments per year), so the library's finite-type and order automation applies.
  \<^item> \<open>LoanCalculator\<close>: the TypeScript engine. The records \<open>amortization_payment\<close> and
    \<open>loan_result\<close> are the two interfaces (field \<open>id\<close> is \<open>paymentId\<close>). \<open>calculate\<close> is
    split the way the function body is: \<open>number_of_payments\<close> (line 23),
    \<open>zero_result\<close> (the early return), \<open>rate_per_period\<close>, \<open>level_payment\<close>
    (\<open>paymentAmount\<close>), the loop variables as the record \<open>amortization_state\<close>
    (\<open>initial_state\<close>), one iteration \<open>payment_step\<close> with its \<open>principal_portion\<close>,
    and the \<open>for\<close> loop \<open>payment_loop\<close>, a \<^theory_text>\<open>function\<close> whose equation carries the
    loop guard \<open>k \<le> n\<close> and whose termination measure is \<open>n + 1 - k\<close>. The loop invariant
    \<open>loop_inv\<close> is carried through the loop by \<open>payment_loop_rule\<close>, the loop's Hoare
    rule, which also carries the invariants of the straight-line and zero-amount cases.
    \<open>fold_upto_payment_loop\<close> shows that the loop is the fold of its body over
    \<open>[k..n]\<close>. \<open>calculate_js\<close> is the same function with the source's divisions
    (\<open>level_payment_js\<close> over \<open>ieee_div\<close>): it is \<open>None\<close> exactly on the inputs
    \<open>annuity_singular\<close>, where \<open>factor - 1\<close> on line 41 is zero, and \<open>calculate\<close>
    everywhere else (\<open>calculate_js_eq\<close>), so the theorems about \<open>calculate\<close> speak of the
    program's result on every other input.
  \<^item> \<open>LoanCalculatorSwift\<close>: the Swift engine \<open>swift_calculate\<close>, with Swift's rounding
    and the \<open>for-in\<close> loop over \<open>1...n\<close> as a \<open>fold\<close> over \<open>[1..n]\<close>. It is proved equal
    to \<open>calculate\<close>: the fold is the guarded loop, and the two
    rounding rules agree on whether the count is positive and on its value when it is.
  \<^item> \<open>Annuity\<close>: the abstract specification for a positive rate, the closed-form
    annuity schedule (\<open>annuity_payment\<close>, \<open>annuity_balance\<close>, \<open>annuity_schedule\<close>),
    defined independently of the engine, and the refinement: the engine's schedule is
    the closed-form schedule (invariant \<open>annuity_inv\<close>).
  \<^item> \<open>LoanViews\<close>: the values the two result views derive (\<open>interest_share\<close>, the bar
    width, both with the division of doubles, \<open>first_payments\<close>, \<open>final_payment\<close>, the section guards, the value and total
    of Swift's \<open>ProgressView\<close>, and the "Principal" line).
  \<^item> \<open>ResultsView\<close>: what \<open>LoanResults.tsx\<close> renders. Its own state is the two
    section toggles (\<open>results_toggles\<close>, flipped by \<open>results_press\<close>).
    \<open>render_results\<close> gives the metric texts, the progress label and each section,
    absent, collapsed or expanded into \<open>payment_row_text\<close>s. For SwiftUI, it gives the
    values that \<open>LoanMetricsSummary\<close>, the breakdown rows and the Swift \<open>PaymentRow\<close>
    format.
  \<^item> \<open>Formatters\<close>: \<open>src/mobile/src/utils/formatters.ts\<close>. \<open>parse_currency\<close> and
    \<open>parse_percentage\<close> are the two parsers, over a model of \<open>parseFloat\<close>
    (\<open>parse_float\<close>, a greedy scan of sign, \<open>Infinity\<close>, digits, fraction and exponent,
    returning a \<open>js_number\<close>: a finite value, an infinity or \<open>NaN\<close>) and of \<open>|| 0\<close>
    (\<open>js_or_zero\<close>). \<open>format_percentage\<close> is written over \<open>toFixed\<close> (\<open>to_fixed\<close>, which
    is \<open>None\<close> outside \<open>|x| < 10^21\<close>, where JavaScript switches to exponent notation).
    \<open>format_currency\<close> is the en-US USD output of \<open>Intl.NumberFormat\<close>: sign, \<open>$\<close>, digit
    groups and two decimals of the amount rounded half up to cents.
  \<^item> \<open>InputForm\<close>: \<open>LoanInputForm.tsx\<close>. \<open>update_parameter\<close> is \<open>updateParameter\<close>, one
    case per key. The handlers are \<open>handle_loan_amount_change\<close>,
    \<open>handle_interest_rate_change\<close> and \<open>adjust_term_years\<close>. \<open>form_step\<close> is a step
    function over \<open>form_event\<close>, the user's actions. A step returns \<open>None\<close> when the rate
    text parses to an infinity, which the exact numbers cannot hold. \<open>form_run\<close> runs a
    sequence of steps.
  \<^item> \<open>Tabs\<close>: the top level of both apps.
    \<^item> React Native (\<open>App.tsx\<close>, \<open>LoanCalculatorScreen.tsx\<close>): \<open>app_state\<close> is the
      selected tab and the mounted screen's parameters. \<open>select_loan_type\<close> is the tab
      press, with React's same-value bail-out and the remount that \<open>key\<close> forces.
      \<open>app_step\<close> and \<open>app_run\<close> step it.
    \<^item> SwiftUI (\<open>ContentView.swift\<close>, \<open>LoanCalculatorView.swift\<close>):
      \<open>swift_app_state\<close> holds the three \<open>@State\<close> records and the visible tab.
      \<open>swift_edit\<close> is what the controls write through the bindings. The \<open>Stepper\<close> on
      \<open>1...40\<close> stops at its bounds, and the text fields commit the number their
      \<open>NumberFormatter\<close> produced; that parsing is Foundation's and not modelled.
  \<^item> \<open>Screens\<close>: the React Native tree as a whole.
    \<^item> \<open>render_form\<close> is what \<open>LoanInputForm\<close> renders: the field texts, the term label
      and stepper value (\<open>js_number_text\<close>, JavaScript's printing of whole numbers), and
      the picker items.
    \<^item> \<open>screen_props_of\<close> gives the props \<open>App\<close> passes to the screen.
    \<^item> \<open>screen_state\<close> is the app state of \<open>Tabs\<close> together with the \<open>LoanResults\<close>
      toggles; \<open>screen_step\<close> and \<open>screen_run\<close> step it. A tab switch remounts the
      screen with its children and collapses both sections; a same-tab press and form
      edits keep the toggles.
    \<^item> \<open>render_screen\<close> gives the tab bar with its highlighted tab, the header, the form
      and the results.
  \<^item> \<open>Scenarios\<close>: the specification's scenarios at the presets. The level payments
    of the residential and vehicle presets are bounded to a cent. The annuity factor
    \<open>(1 + r)^360\<close> is never computed in full: it is bracketed by repeated squaring with
    16-decimal bounds (\<open>mul_bounds\<close>, \<open>residential_factor_chain\<close>,
    \<open>vehicle_factor_chain\<close>).
  \<^item> \<open>SwiftScreens\<close>: what the SwiftUI app renders. \<open>currency_formatter\<close> and
    \<open>percent_formatter\<close> are the two \<open>NumberFormatter\<close> configurations of
    \<open>Formatters.swift\<close>, and \<open>currency_code\<close> is the locale's currency code or
    \<open>"USD"\<close>. \<open>printf_0f\<close> is C's \<open>%.0f\<close>, rounding ties to even
    (\<open>round_half_even\<close>), and \<open>swift_term_label\<close> is the stepper's label.
    \<open>render_swift_view\<close> is the body of \<open>LoanCalculatorView\<close>, with
    \<open>LoanMetricsSummary\<close> and \<open>LoanBreakdownView\<close> inlined: the tab's title and
    footer, the overview values, each field's value with its formatter, the term label,
    the picker, the breakdown values, and the two \<open>DisclosureGroup\<close>s when their \<open>if\<close>
    holds. \<open>render_swift_app\<close> is \<open>ContentView\<close>'s visible tab. The invariant
    \<open>swift_whole\<close> keeps every term whole under the stepper.
  \<^item> this theory: the property that spans the apps and the engine, a reachable division
    by zero.

  \<^bold>\<open>What is proved\<close> (claims C1 to C30). The engine, for every input: the schedule
  has \<open>round(termYears \<times> paymentsPerYear)\<close> rows (C1), numbered \<open>1..n\<close> in \<open>id\<close> and
  \<open>paymentNumber\<close> (C7); its last balance is exactly zero (C2); balances never increase
  and are never negative (C3); the totals are the column sums (C4); the principal column
  repays \<open>max(loanAmount, 0)\<close> (C5); every row is well formed and each balance is the
  previous one less the row's principal (C6). With the source's divisions: too short a
  term takes the early return to the zero result (C8); a non-positive amount gives
  all-zero rows except on the singular inputs (C11); and the payment is non-finite
  exactly for an even, positive number of payments at an annual rate of \<open>-200\<close> times
  the frequency, the result being \<open>calculate\<close>'s everywhere else (C12). The two engines
  are equal (C9). A zero rate gives straight-line rows of \<open>P/n\<close> (C10). For a positive
  rate the schedule is the closed-form annuity schedule (C13).

  The result views: both apps compute the same finite interest share, in \<open>[0, 1]\<close>,
  thanks to their \<open>totalPaid > 0\<close> guards (C14); the final and the first payments are
  shown exactly when there are payments, and are the same rows on both platforms (C15,
  C16). A freshly rendered result expands its final section into \<open>Payment #n\<close> with the
  balance \<open>$0.00\<close> (C29).

  The formatters: \<open>parseCurrency\<close> returns a non-negative number below \<open>10\<close> to the
  power of the text's length, and ignores a minus sign or an \<open>e\<close> anywhere (C17). The
  rate text round-trips to the rate rounded to three decimals, within \<open>1/2000\<close> of it
  (C18). The amount text round-trips to \<open>|x|\<close> rounded to cents, so the sign is lost
  (C19).

  The input form: every run keeps the amount non-negative and the term in \<open>[1, 40]\<close>
  (C21).

  The apps: in React Native a tab switch resets the screen to the preset, and a press on
  the current tab keeps it (C22). Every reachable React Native screen renders a
  whole-number term in \<open>[1, 40]\<close>, the three frequencies, one highlighted tab and the
  first payments (C23), satisfies the form invariant and shows at least 12 payments
  (C25). In SwiftUI the tabs are isolated: switches keep every tab's parameters and an
  edit touches only the visible tab (C24); every reachable state keeps each term in
  \<open>[1, 40]\<close>, while a negative amount can be committed (C26), and labels every tab's
  term \<open>Term: k years\<close> with a whole \<open>k\<close> in \<open>[1, 40]\<close> (C20). For a whole term, the
  SwiftUI view and the React Native screen display the same term label, frequency
  options, metric values and payment sections (C28). The presets agree across the apps
  and give the spec's 360, 240 and 72 payments; their level payments are 2626.08 and
  772.62 to the cent, which refutes the spec's 2626.69 and 766.87 (C27). Both apps reach
  the engine's division by zero in one edit from launch (C30).

  \<^bold>\<open>Numbers.\<close> The source computes in IEEE-754 doubles. HOL-Library has no floating
  point, so every numeric quantity is a value of a type \<open>'a::floor_ceiling\<close>, an exact
  ordered field (\<open>rat\<close>, \<open>real\<close>); counts are \<open>int\<close>. The theorems hold for exact
  arithmetic. Those about clamping, the last balance, signs, sums of columns, lengths and
  numbering rest on the clamps of the code and carry over to doubles in spirit, but they
  are not proved for doubles. The one division of the engine that can meet a zero
  divisor, \<open>factor - 1\<close>, is modelled with its non-finite outcome (\<open>calculate_js\<close>); it
  is reached at a periodic rate of \<open>-2\<close>, which both rate fields accept (C30). The
  guarded divisions of the views are modelled the same way. Not modelled: computing
  with NaN and infinities past that point (a non-finite parameter, or the rows derived
  from a non-finite payment), the overflow of a very long numeral to \<open>Infinity\<close> in
  \<open>parseFloat\<close> (the model reads numerals exactly), underflow of \<open>ratePerPeriod\<close> to
  zero, and Swift's trap in \<open>Int(Double)\<close> on out-of-range counts. Witnesses evaluate the engine at
  \<open>rat\<close> on two- and three-payment loans by \<open>code_simp\<close>; no loop needs fuel, since
  the only loop is bounded by its counter. The preset payments (C27) are not evaluated:
  their annuity factors are bracketed by 16-decimal bounds, as described for
  \<open>Scenarios\<close>.

  \<^bold>\<open>Not modelled.\<close>
  \<^item> Foundation's formatting: the \<open>.currency\<close> and \<open>.percent\<close> styles used by
    \<open>LoanMetricsSummary.swift\<close> and \<open>LoanBreakdownView.swift\<close> and the text that a
    configured \<open>NumberFormatter\<close> prints. The values formatted, the currency code and
    the formatter configuration are modelled (\<open>SwiftScreens\<close>); the printing is a
    locale-dependent library that the repository only calls.
  \<^item> The text parsing of \<open>CurrencyTextField\<close>/\<open>PercentageTextField\<close> belongs to
    Foundation. Its effect, a committed number, is modelled as an event.
  \<^item> Styles, layout, focus state, the \<open>Done\<close> keyboard button and the expansion
    state of the SwiftUI \<open>DisclosureGroup\<close>s change only what is drawn.
  \<^item> The rounding of decimal literals and sums to doubles is not modelled.
\<close>

section \<open>A division by zero both apps reach\<close>


end
